theory Spec2Isabelle
  imports Complex_Main
begin

section \<open>Python values, hyperparameter dictionaries and estimators\<close>

text \<open>
  The module \<^verbatim>\<open>q2_sample_classifier/classify.py\<close> is glue: every function picks an
  estimator class of the external estimator library, builds a dictionary describing a
  hyperparameter search space and hands both to collaborators (\<^verbatim>\<open>load_data\<close>,
  \<^verbatim>\<open>tune_parameters\<close>, \<^verbatim>\<open>split_optimize_classify\<close>, \<^verbatim>\<open>visualize\<close>) that live in
  another module. The embedding therefore records \<^emph>\<open>what is called with which
  arguments, in which order\<close>, and what is returned or raised.

  Python values that the file writes down literally (the entries of the search-space
  dictionaries) are values of \<open>pyval\<close>. A float literal is kept as the decimal number it
  denotes; the file never computes with it. Objects that only pass through the file
  (tables, metadata, data frames, confusion matrices, scores) are opaque handles
  \<open>Obj n\<close>. \<open>Randint lo hi\<close> stands for the object \<^verbatim>\<open>scipy.stats.randint(lo, hi)\<close>.
\<close>

datatype pyval =
    PNone
  | PBool bool
  | PInt int
  | PFloat rat
  | PStr string
  | PList "pyval list"
  | Randint int int
  | Obj nat

text \<open>
  A Python dictionary with string keys, in insertion order, as an association list with
  distinct keys.
\<close>

type_synonym dict = "(string \<times> pyval) list"

text \<open>
  An estimator object is the constructor expression that built it: the class and the
  arguments the file passes (\<^verbatim>\<open>RandomForestClassifier(n_jobs=n_jobs,
  n_estimators=n_estimators)\<close>, \<^verbatim>\<open>AdaBoostClassifier(base_estimator, n_estimators)\<close>,
  \<^verbatim>\<open>SVC(kernel=kernel)\<close>, ...). \<open>EstimatorObject n\<close> is an estimator handed back by a
  collaborator (a tuned or a fitted one), of which the file knows nothing.
\<close>

datatype estimator =
    RandomForestClassifier int int
  | ExtraTreesClassifier int int
  | DecisionTreeClassifier
  | AdaBoostClassifier estimator int
  | GradientBoostingClassifier int
  | RandomForestRegressor int int
  | ExtraTreesRegressor int int
  | DecisionTreeRegressor
  | AdaBoostRegressor estimator int
  | GradientBoostingRegressor int
  | LinearSVC
  | SVC string
  | SVR string
  | Ridge string
  | Lasso
  | ElasticNet
  | KNeighborsClassifier string
  | KNeighborsRegressor string
  | EstimatorObject nat

text \<open>
  The estimator library's own taxonomy of the classes the file imports: which of them are
  classifiers and which are regressors. Nothing is known of an opaque estimator.
\<close>

fun is_classifier :: "estimator \<Rightarrow> bool" where
  "is_classifier (RandomForestClassifier _ _) = True"
| "is_classifier (ExtraTreesClassifier _ _) = True"
| "is_classifier DecisionTreeClassifier = True"
| "is_classifier (AdaBoostClassifier _ _) = True"
| "is_classifier (GradientBoostingClassifier _) = True"
| "is_classifier LinearSVC = True"
| "is_classifier (SVC _) = True"
| "is_classifier (KNeighborsClassifier _) = True"
| "is_classifier _ = False"

fun is_regressor :: "estimator \<Rightarrow> bool" where
  "is_regressor (RandomForestRegressor _ _) = True"
| "is_regressor (ExtraTreesRegressor _ _) = True"
| "is_regressor DecisionTreeRegressor = True"
| "is_regressor (AdaBoostRegressor _ _) = True"
| "is_regressor (GradientBoostingRegressor _) = True"
| "is_regressor (SVR _) = True"
| "is_regressor (Ridge _) = True"
| "is_regressor Lasso = True"
| "is_regressor ElasticNet = True"
| "is_regressor (KNeighborsRegressor _) = True"
| "is_regressor _ = False"

section \<open>Calls to collaborators, traces and exceptions\<close>

datatype warning_category = UserWarning

datatype scorer = mean_squared_error

text \<open>
  The arguments of one call of \<^verbatim>\<open>split_optimize_classify\<close>: five positional ones and
  the keywords. \<open>soc_scoring\<close> and \<open>soc_classification\<close> are \<open>None\<close> when the call does
  not pass the keyword, so that the collaborator's own default applies.
\<close>

record soc_args =
  soc_table :: pyval
  soc_metadata :: pyval
  soc_category :: string
  soc_estimator :: estimator
  soc_output_dir :: string
  soc_test_size :: rat
  soc_step :: rat
  soc_cv :: int
  soc_random_state :: "int option"
  soc_n_jobs :: int
  soc_optimize_feature_selection :: bool
  soc_parameter_tuning :: bool
  soc_param_dist :: dict
  soc_calc_feature_importance :: bool
  soc_scoring :: "scorer option"
  soc_classification :: "bool option"

text \<open>
  Everything a function of the file does to the outside is an event:
  \<^item> \<open>LoadData table metadata transpose\<close>;
  \<^item> \<open>GetItem targets category\<close>, the subscript \<^verbatim>\<open>targets[category]\<close> on the object that
    \<^verbatim>\<open>load_data\<close> returned;
  \<^item> \<open>TuneParameters features y base_estimator param_dist n_jobs cv random_state\<close>;
  \<^item> \<open>SplitOptimizeClassify args\<close>;
  \<^item> \<open>Visualize output_dir estimator cm accuracy importances optimize_feature_selection\<close>;
  \<^item> \<open>Predict estimator table\<close>, the method call \<^verbatim>\<open>estimator.predict(table)\<close>;
  \<^item> \<open>Warn message category\<close>, the call \<^verbatim>\<open>warnings.warn(message, category)\<close>.
\<close>

datatype event =
    LoadData pyval pyval bool
  | GetItem pyval string
  | TuneParameters pyval pyval estimator dict int int "int option"
  | SplitOptimizeClassify soc_args
  | Visualize string estimator pyval pyval pyval bool
  | Predict estimator pyval
  | Warn string warning_category

text \<open>
  An exception is either one that a statement of this file would raise itself (the only
  candidate is the subscript \<^verbatim>\<open>ensemble_params[k]\<close>, a \<open>KeyError\<close> on a missing key), or
  one raised inside a collaborator, identified by an opaque number.
\<close>

datatype exn = KeyError string | Foreign nat

text \<open>
  A computation yields the exception or the value it ends with, and the events it caused,
  oldest first. \<open>bind\<close> is sequencing: an exception ends the computation, since the file
  has no \<^verbatim>\<open>try\<close>.
\<close>

type_synonym 'a prog = "(exn + 'a) \<times> event list"

definition return :: "'a \<Rightarrow> 'a prog" where
  "return x = (Inr x, [])"

definition raise :: "exn \<Rightarrow> 'a prog" where
  "raise e = (Inl e, [])"

definition bind :: "'a prog \<Rightarrow> ('a \<Rightarrow> 'b prog) \<Rightarrow> 'b prog" where
  "bind m f =
     (case m of
        (Inl e, t) \<Rightarrow> (Inl e, t)
      | (Inr x, t) \<Rightarrow> (case f x of (r, t') \<Rightarrow> (r, t @ t')))"

text \<open>
  The collaborators are parameters of the model: for every call, the environment says
  whether it raises (\<open>Inl n\<close>) or what it returns. Nothing is assumed about them.
\<close>

record env =
  env_load_data :: "pyval \<Rightarrow> pyval \<Rightarrow> bool \<Rightarrow> nat + (pyval \<times> pyval)"
  env_getitem :: "pyval \<Rightarrow> string \<Rightarrow> nat + pyval"
  env_tune_parameters ::
    "pyval \<Rightarrow> pyval \<Rightarrow> estimator \<Rightarrow> dict \<Rightarrow> int \<Rightarrow> int \<Rightarrow> int option \<Rightarrow> nat + estimator"
  env_split_optimize_classify :: "soc_args \<Rightarrow> nat + (estimator \<times> pyval \<times> pyval \<times> pyval)"
  env_visualize :: "string \<Rightarrow> estimator \<Rightarrow> pyval \<Rightarrow> pyval \<Rightarrow> pyval \<Rightarrow> bool \<Rightarrow> nat + pyval"
  env_predict :: "estimator \<Rightarrow> pyval \<Rightarrow> nat + pyval"

definition call :: "event \<Rightarrow> nat + 'a \<Rightarrow> 'a prog" where
  "call ev r = (case r of Inl n \<Rightarrow> (Inl (Foreign n), [ev]) | Inr x \<Rightarrow> (Inr x, [ev]))"

definition load_data :: "env \<Rightarrow> pyval \<Rightarrow> pyval \<Rightarrow> bool \<Rightarrow> (pyval \<times> pyval) prog" where
  "load_data E tbl md tr = call (LoadData tbl md tr) (env_load_data E tbl md tr)"

definition getitem :: "env \<Rightarrow> pyval \<Rightarrow> string \<Rightarrow> pyval prog" where
  "getitem E obj key = call (GetItem obj key) (env_getitem E obj key)"

definition tune_parameters ::
  "env \<Rightarrow> pyval \<Rightarrow> pyval \<Rightarrow> estimator \<Rightarrow> dict \<Rightarrow> int \<Rightarrow> int \<Rightarrow> int option \<Rightarrow> estimator prog" where
  "tune_parameters E X y est pd nj folds rs =
     call (TuneParameters X y est pd nj folds rs) (env_tune_parameters E X y est pd nj folds rs)"

definition split_optimize_classify ::
  "env \<Rightarrow> soc_args \<Rightarrow> (estimator \<times> pyval \<times> pyval \<times> pyval) prog" where
  "split_optimize_classify E a = call (SplitOptimizeClassify a) (env_split_optimize_classify E a)"

definition visualize ::
  "env \<Rightarrow> string \<Rightarrow> estimator \<Rightarrow> pyval \<Rightarrow> pyval \<Rightarrow> pyval \<Rightarrow> bool \<Rightarrow> pyval prog" where
  "visualize E dir est m acc imp ofs =
     call (Visualize dir est m acc imp ofs) (env_visualize E dir est m acc imp ofs)"

definition predict :: "env \<Rightarrow> estimator \<Rightarrow> pyval \<Rightarrow> pyval prog" where
  "predict E est tbl = call (Predict est tbl) (env_predict E est tbl)"

text \<open>
  \<^verbatim>\<open>warnings.warn\<close> under the interpreter's default warning filter: the warning is
  reported and the call returns \<^verbatim>\<open>None\<close>.
\<close>

definition warnings_warn :: "string \<Rightarrow> warning_category \<Rightarrow> pyval prog" where
  "warnings_warn message c = (Inr PNone, [Warn message c])"

section \<open>Dictionary operations\<close>

definition keys :: "dict \<Rightarrow> string list" where
  "keys d = map fst d"

text \<open>The subscript \<^verbatim>\<open>d[k]\<close>, which raises \<^verbatim>\<open>KeyError\<close> on a missing key.\<close>

definition dict_getitem :: "dict \<Rightarrow> string \<Rightarrow> pyval prog" where
  "dict_getitem d k = (case map_of d k of None \<Rightarrow> raise (KeyError k) | Some v \<Rightarrow> return v)"

text \<open>
  The assignment \<^verbatim>\<open>d[k] = v\<close>: an existing key keeps its place, a new key goes last. The
  display \<^verbatim>\<open>{**d, k: v}\<close> is this assignment on a copy of \<open>d\<close>.
\<close>

fun dict_setitem :: "dict \<Rightarrow> string \<Rightarrow> pyval \<Rightarrow> dict" where
  "dict_setitem [] k v = [(k, v)]"
| "dict_setitem ((k', v') # d) k v =
     (if k' = k then (k, v) # d else (k', v') # dict_setitem d k v)"

section \<open>The module's constants\<close>

definition ensemble_params :: dict where
  "ensemble_params =
     [(''max_depth'', PList [PInt 4, PInt 8, PInt 16, PNone]),
      (''max_features'', PList [PNone, PStr ''sqrt'', PStr ''log2'', PFloat 0.1]),
      (''min_samples_split'', PList [PFloat 0.001, PFloat 0.01, PFloat 0.1]),
      (''min_weight_fraction_leaf'', PList [PFloat 0.0001, PFloat 0.001, PFloat 0.01]),
      (''bootstrap'', PList [PBool True, PBool False])]"

definition linear_svm_params :: dict where
  "linear_svm_params =
     [(''C'', PList [PInt 1, PFloat 0.5, PFloat 0.1, PFloat 0.9, PFloat 0.8]),
      (''loss'', PList [PStr ''hinge'', PStr ''squared_hinge'']),
      (''tol'', PList [PFloat 0.00001, PFloat 0.0001, PFloat 0.001])]"

definition svm_params :: dict where
  "svm_params =
     [(''C'', PList [PInt 1, PFloat 0.5, PFloat 0.1, PFloat 0.9, PFloat 0.8]),
      (''tol'', PList [PFloat 0.00001, PFloat 0.0001, PFloat 0.001, PFloat 0.01]),
      (''shrinking'', PList [PBool True, PBool False])]"

definition neighbors_params :: dict where
  "neighbors_params =
     [(''n_neighbors'', Randint 2 15),
      (''weights'', PList [PStr ''uniform'', PStr ''distance'']),
      (''leaf_size'', Randint 15 100)]"

definition linear_params :: dict where
  "linear_params =
     [(''alpha'', PList [PFloat 0.0001, PFloat 0.01, PFloat 1.0, PFloat 10.0, PFloat 1000.0]),
      (''tol'', PList [PFloat 0.00001, PFloat 0.0001, PFloat 0.001, PFloat 0.01])]"

section \<open>The SVM helper and its warning\<close>

definition warn_feature_selection :: "pyval prog" where
  "warn_feature_selection =
     (let warning =
        ''This estimator does not support recursive feature extraction with '' @
        ''the parameter settings requested. See documentation or try a '' @
        ''different estimator model.''
      in warnings_warn warning UserWarning)"

text \<open>
  The parameter \<^verbatim>\<open>kernel\<close> of the source is written \<open>kernel'\<close>, since \<open>kernel\<close> is a
  constant of the logic. The function returns the pair
  \<open>(calc_feature_importance, optimize_feature_selection)\<close>.
\<close>

definition svm_set :: "string \<Rightarrow> bool \<Rightarrow> (bool \<times> bool) prog" where
  "svm_set kernel' optimize_feature_selection =
     (if kernel' = ''linear''
      then return (True, optimize_feature_selection)
      else bind warn_feature_selection (\<lambda>_. return (False, False)))"

section \<open>The search space of the boosting estimators\<close>

text \<open>
  The comprehension
  \<^verbatim>\<open>{k: ensemble_params[k] for k in ensemble_params.keys() if k != "bootstrap"}\<close>
  as the loop it abbreviates: for each key of \<open>d\<close> in order, skip \<^verbatim>\<open>"bootstrap"\<close>, otherwise
  look the key up in \<open>d\<close> and store the value in the dictionary under construction.
\<close>

fun dict_comprehension :: "dict \<Rightarrow> string list \<Rightarrow> dict \<Rightarrow> dict prog" where
  "dict_comprehension d [] acc = return acc"
| "dict_comprehension d (k # ks) acc =
     (if k \<noteq> ''bootstrap''
      then bind (dict_getitem d k) (\<lambda>v. dict_comprehension d ks (dict_setitem acc k v))
      else dict_comprehension d ks acc)"

definition ensemble_params_without_bootstrap :: "dict prog" where
  "ensemble_params_without_bootstrap =
     dict_comprehension ensemble_params (keys ensemble_params) []"

section \<open>The entry points\<close>

text \<open>
  Each function takes the environment \<open>E\<close> and then the parameters of the source function,
  in the source's order. A call of \<^verbatim>\<open>split_optimize_classify\<close> that passes neither
  \<^verbatim>\<open>scoring\<close> nor \<^verbatim>\<open>classification\<close> has \<open>None\<close> in these two fields. A function that
  falls off its end returns \<^verbatim>\<open>None\<close>.
\<close>

definition classify_random_forest ::
  "env \<Rightarrow> string \<Rightarrow> pyval \<Rightarrow> pyval \<Rightarrow> string \<Rightarrow> rat \<Rightarrow> rat \<Rightarrow> int \<Rightarrow> int option \<Rightarrow> int \<Rightarrow>
   int \<Rightarrow> bool \<Rightarrow> bool \<Rightarrow> pyval prog" where
  "classify_random_forest E output_dir table metadata category test_size step cv random_state n_jobs
     n_estimators optimize_feature_selection parameter_tuning =
     (let param_dist = dict_setitem ensemble_params ''criterion'' (PList [PStr ''gini'', PStr ''entropy'']);
          estimator = RandomForestClassifier n_jobs n_estimators
      in
      bind (split_optimize_classify E
           \<lparr>soc_table = table, soc_metadata = metadata, soc_category = category,
            soc_estimator = estimator, soc_output_dir = output_dir,
            soc_test_size = test_size, soc_step = step, soc_cv = cv,
            soc_random_state = random_state, soc_n_jobs = n_jobs,
            soc_optimize_feature_selection = optimize_feature_selection,
            soc_parameter_tuning = parameter_tuning, soc_param_dist = param_dist,
            soc_calc_feature_importance = True,
            soc_scoring = None, soc_classification = None\<rparr>)
        (\<lambda>(estimator, cm, accuracy, importances).
      bind (visualize E output_dir estimator cm accuracy importances optimize_feature_selection)
        (\<lambda>_.
      return PNone)))"

definition classify_extra_trees ::
  "env \<Rightarrow> string \<Rightarrow> pyval \<Rightarrow> pyval \<Rightarrow> string \<Rightarrow> rat \<Rightarrow> rat \<Rightarrow> int \<Rightarrow> int option \<Rightarrow> int \<Rightarrow>
   int \<Rightarrow> bool \<Rightarrow> bool \<Rightarrow> pyval prog" where
  "classify_extra_trees E output_dir table metadata category test_size step cv random_state n_jobs
     n_estimators optimize_feature_selection parameter_tuning =
     (let param_dist = dict_setitem ensemble_params ''criterion'' (PList [PStr ''gini'', PStr ''entropy'']);
          estimator = ExtraTreesClassifier n_jobs n_estimators
      in
      bind (split_optimize_classify E
           \<lparr>soc_table = table, soc_metadata = metadata, soc_category = category,
            soc_estimator = estimator, soc_output_dir = output_dir,
            soc_test_size = test_size, soc_step = step, soc_cv = cv,
            soc_random_state = random_state, soc_n_jobs = n_jobs,
            soc_optimize_feature_selection = optimize_feature_selection,
            soc_parameter_tuning = parameter_tuning, soc_param_dist = param_dist,
            soc_calc_feature_importance = True,
            soc_scoring = None, soc_classification = None\<rparr>)
        (\<lambda>(estimator, cm, accuracy, importances).
      bind (visualize E output_dir estimator cm accuracy importances optimize_feature_selection)
        (\<lambda>_.
      return PNone)))"

definition classify_adaboost ::
  "env \<Rightarrow> string \<Rightarrow> pyval \<Rightarrow> pyval \<Rightarrow> string \<Rightarrow> rat \<Rightarrow> rat \<Rightarrow> int \<Rightarrow> int option \<Rightarrow> int \<Rightarrow>
   int \<Rightarrow> bool \<Rightarrow> bool \<Rightarrow> pyval prog" where
  "classify_adaboost E output_dir table metadata category test_size step cv random_state n_jobs
     n_estimators optimize_feature_selection parameter_tuning =
     (let base_estimator = DecisionTreeClassifier in
      bind ensemble_params_without_bootstrap (\<lambda>param_dist.
      bind (if parameter_tuning
            then bind (load_data E table metadata True) (\<lambda>(features, targets).
                 bind (getitem E targets category) (\<lambda>targets_category.
                 tune_parameters E features targets_category base_estimator param_dist
                   n_jobs cv random_state))
            else return base_estimator)
        (\<lambda>base_estimator.
      let estimator = AdaBoostClassifier base_estimator n_estimators
      in
      bind (split_optimize_classify E
           \<lparr>soc_table = table, soc_metadata = metadata, soc_category = category,
            soc_estimator = estimator, soc_output_dir = output_dir,
            soc_test_size = test_size, soc_step = step, soc_cv = cv,
            soc_random_state = random_state, soc_n_jobs = n_jobs,
            soc_optimize_feature_selection = optimize_feature_selection,
            soc_parameter_tuning = False, soc_param_dist = param_dist,
            soc_calc_feature_importance = True,
            soc_scoring = None, soc_classification = None\<rparr>)
        (\<lambda>(estimator, cm, accuracy, importances).
      bind (visualize E output_dir estimator cm accuracy importances optimize_feature_selection)
        (\<lambda>_.
      return PNone)))))"

definition classify_gradient_boosting ::
  "env \<Rightarrow> string \<Rightarrow> pyval \<Rightarrow> pyval \<Rightarrow> string \<Rightarrow> rat \<Rightarrow> rat \<Rightarrow> int \<Rightarrow> int option \<Rightarrow> int \<Rightarrow>
   int \<Rightarrow> bool \<Rightarrow> bool \<Rightarrow> pyval prog" where
  "classify_gradient_boosting E output_dir table metadata category test_size step cv random_state n_jobs
     n_estimators optimize_feature_selection parameter_tuning =
     (bind ensemble_params_without_bootstrap (\<lambda>param_dist.
      let estimator = GradientBoostingClassifier n_estimators
      in
      bind (split_optimize_classify E
           \<lparr>soc_table = table, soc_metadata = metadata, soc_category = category,
            soc_estimator = estimator, soc_output_dir = output_dir,
            soc_test_size = test_size, soc_step = step, soc_cv = cv,
            soc_random_state = random_state, soc_n_jobs = n_jobs,
            soc_optimize_feature_selection = optimize_feature_selection,
            soc_parameter_tuning = parameter_tuning, soc_param_dist = param_dist,
            soc_calc_feature_importance = True,
            soc_scoring = None, soc_classification = None\<rparr>)
        (\<lambda>(estimator, cm, accuracy, importances).
      bind (visualize E output_dir estimator cm accuracy importances optimize_feature_selection)
        (\<lambda>_.
      return PNone))))"

definition regress_random_forest ::
  "env \<Rightarrow> string \<Rightarrow> pyval \<Rightarrow> pyval \<Rightarrow> string \<Rightarrow> rat \<Rightarrow> rat \<Rightarrow> int \<Rightarrow> int option \<Rightarrow> int \<Rightarrow>
   int \<Rightarrow> bool \<Rightarrow> bool \<Rightarrow> pyval prog" where
  "regress_random_forest E output_dir table metadata category test_size step cv random_state n_jobs
     n_estimators optimize_feature_selection parameter_tuning =
     (let param_dist = ensemble_params;
          estimator = RandomForestRegressor n_jobs n_estimators
      in
      bind (split_optimize_classify E
           \<lparr>soc_table = table, soc_metadata = metadata, soc_category = category,
            soc_estimator = estimator, soc_output_dir = output_dir,
            soc_test_size = test_size, soc_step = step, soc_cv = cv,
            soc_random_state = random_state, soc_n_jobs = n_jobs,
            soc_optimize_feature_selection = optimize_feature_selection,
            soc_parameter_tuning = parameter_tuning, soc_param_dist = param_dist,
            soc_calc_feature_importance = True,
            soc_scoring = Some mean_squared_error, soc_classification = Some False\<rparr>)
        (\<lambda>(estimator, cm, accuracy, importances).
      bind (visualize E output_dir estimator cm accuracy importances optimize_feature_selection)
        (\<lambda>_.
      return PNone)))"

definition regress_extra_trees ::
  "env \<Rightarrow> string \<Rightarrow> pyval \<Rightarrow> pyval \<Rightarrow> string \<Rightarrow> rat \<Rightarrow> rat \<Rightarrow> int \<Rightarrow> int option \<Rightarrow> int \<Rightarrow>
   int \<Rightarrow> bool \<Rightarrow> bool \<Rightarrow> pyval prog" where
  "regress_extra_trees E output_dir table metadata category test_size step cv random_state n_jobs
     n_estimators optimize_feature_selection parameter_tuning =
     (let param_dist = ensemble_params;
          estimator = ExtraTreesRegressor n_jobs n_estimators
      in
      bind (split_optimize_classify E
           \<lparr>soc_table = table, soc_metadata = metadata, soc_category = category,
            soc_estimator = estimator, soc_output_dir = output_dir,
            soc_test_size = test_size, soc_step = step, soc_cv = cv,
            soc_random_state = random_state, soc_n_jobs = n_jobs,
            soc_optimize_feature_selection = optimize_feature_selection,
            soc_parameter_tuning = parameter_tuning, soc_param_dist = param_dist,
            soc_calc_feature_importance = True,
            soc_scoring = Some mean_squared_error, soc_classification = Some False\<rparr>)
        (\<lambda>(estimator, cm, accuracy, importances).
      bind (visualize E output_dir estimator cm accuracy importances optimize_feature_selection)
        (\<lambda>_.
      return PNone)))"

definition regress_adaboost ::
  "env \<Rightarrow> string \<Rightarrow> pyval \<Rightarrow> pyval \<Rightarrow> string \<Rightarrow> rat \<Rightarrow> rat \<Rightarrow> int \<Rightarrow> int option \<Rightarrow> int \<Rightarrow>
   int \<Rightarrow> bool \<Rightarrow> bool \<Rightarrow> pyval prog" where
  "regress_adaboost E output_dir table metadata category test_size step cv random_state n_jobs
     n_estimators optimize_feature_selection parameter_tuning =
     (let base_estimator = DecisionTreeRegressor in
      bind ensemble_params_without_bootstrap (\<lambda>param_dist.
      bind (if parameter_tuning
            then bind (load_data E table metadata True) (\<lambda>(features, targets).
                 bind (getitem E targets category) (\<lambda>targets_category.
                 tune_parameters E features targets_category base_estimator param_dist
                   n_jobs cv random_state))
            else return base_estimator)
        (\<lambda>base_estimator.
      let estimator = AdaBoostRegressor base_estimator n_estimators
      in
      bind (split_optimize_classify E
           \<lparr>soc_table = table, soc_metadata = metadata, soc_category = category,
            soc_estimator = estimator, soc_output_dir = output_dir,
            soc_test_size = test_size, soc_step = step, soc_cv = cv,
            soc_random_state = random_state, soc_n_jobs = n_jobs,
            soc_optimize_feature_selection = optimize_feature_selection,
            soc_parameter_tuning = False, soc_param_dist = param_dist,
            soc_calc_feature_importance = True,
            soc_scoring = Some mean_squared_error, soc_classification = Some False\<rparr>)
        (\<lambda>(estimator, cm, accuracy, importances).
      bind (visualize E output_dir estimator cm accuracy importances optimize_feature_selection)
        (\<lambda>_.
      return PNone)))))"

definition regress_gradient_boosting ::
  "env \<Rightarrow> string \<Rightarrow> pyval \<Rightarrow> pyval \<Rightarrow> string \<Rightarrow> rat \<Rightarrow> rat \<Rightarrow> int \<Rightarrow> int option \<Rightarrow> int \<Rightarrow>
   int \<Rightarrow> bool \<Rightarrow> bool \<Rightarrow> pyval prog" where
  "regress_gradient_boosting E output_dir table metadata category test_size step cv random_state n_jobs
     n_estimators optimize_feature_selection parameter_tuning =
     (bind ensemble_params_without_bootstrap (\<lambda>param_dist.
      let estimator = GradientBoostingRegressor n_estimators
      in
      bind (split_optimize_classify E
           \<lparr>soc_table = table, soc_metadata = metadata, soc_category = category,
            soc_estimator = estimator, soc_output_dir = output_dir,
            soc_test_size = test_size, soc_step = step, soc_cv = cv,
            soc_random_state = random_state, soc_n_jobs = n_jobs,
            soc_optimize_feature_selection = optimize_feature_selection,
            soc_parameter_tuning = parameter_tuning, soc_param_dist = param_dist,
            soc_calc_feature_importance = True,
            soc_scoring = Some mean_squared_error, soc_classification = Some False\<rparr>)
        (\<lambda>(estimator, cm, accuracy, importances).
      bind (visualize E output_dir estimator cm accuracy importances optimize_feature_selection)
        (\<lambda>_.
      return PNone))))"

definition classify_linearSVC ::
  "env \<Rightarrow> string \<Rightarrow> pyval \<Rightarrow> pyval \<Rightarrow> string \<Rightarrow> rat \<Rightarrow> rat \<Rightarrow> int \<Rightarrow> int option \<Rightarrow> int \<Rightarrow>
   bool \<Rightarrow> bool \<Rightarrow> pyval prog" where
  "classify_linearSVC E output_dir table metadata category test_size step cv random_state n_jobs
     parameter_tuning optimize_feature_selection =
     (let param_dist = linear_svm_params;
          estimator = LinearSVC
      in
      bind (split_optimize_classify E
           \<lparr>soc_table = table, soc_metadata = metadata, soc_category = category,
            soc_estimator = estimator, soc_output_dir = output_dir,
            soc_test_size = test_size, soc_step = step, soc_cv = cv,
            soc_random_state = random_state, soc_n_jobs = n_jobs,
            soc_optimize_feature_selection = optimize_feature_selection,
            soc_parameter_tuning = parameter_tuning, soc_param_dist = param_dist,
            soc_calc_feature_importance = True,
            soc_scoring = None, soc_classification = None\<rparr>)
        (\<lambda>(estimator, cm, accuracy, importances).
      bind (visualize E output_dir estimator cm accuracy importances optimize_feature_selection)
        (\<lambda>_.
      return PNone)))"

definition classify_SVC ::
  "env \<Rightarrow> string \<Rightarrow> pyval \<Rightarrow> pyval \<Rightarrow> string \<Rightarrow> rat \<Rightarrow> rat \<Rightarrow> int \<Rightarrow> int option \<Rightarrow> int \<Rightarrow>
   bool \<Rightarrow> bool \<Rightarrow> string \<Rightarrow> pyval prog" where
  "classify_SVC E output_dir table metadata category test_size step cv random_state n_jobs
     parameter_tuning optimize_feature_selection kernel' =
     (let param_dist = svm_params;
          estimator = SVC kernel'
      in
      bind (svm_set kernel' optimize_feature_selection)
        (\<lambda>(calc_feature_importance, optimize_feature_selection).
      bind (split_optimize_classify E
           \<lparr>soc_table = table, soc_metadata = metadata, soc_category = category,
            soc_estimator = estimator, soc_output_dir = output_dir,
            soc_test_size = test_size, soc_step = step, soc_cv = cv,
            soc_random_state = random_state, soc_n_jobs = n_jobs,
            soc_optimize_feature_selection = optimize_feature_selection,
            soc_parameter_tuning = parameter_tuning, soc_param_dist = param_dist,
            soc_calc_feature_importance = calc_feature_importance,
            soc_scoring = None, soc_classification = None\<rparr>)
        (\<lambda>(estimator, cm, accuracy, importances).
      bind (visualize E output_dir estimator cm accuracy importances optimize_feature_selection)
        (\<lambda>_.
      return PNone))))"

definition regress_SVR ::
  "env \<Rightarrow> string \<Rightarrow> pyval \<Rightarrow> pyval \<Rightarrow> string \<Rightarrow> rat \<Rightarrow> rat \<Rightarrow> int \<Rightarrow> int option \<Rightarrow> int \<Rightarrow>
   bool \<Rightarrow> bool \<Rightarrow> string \<Rightarrow> pyval prog" where
  "regress_SVR E output_dir table metadata category test_size step cv random_state n_jobs
     parameter_tuning optimize_feature_selection kernel' =
     (let param_dist = dict_setitem svm_params ''epsilon'' (PList [PFloat 0.0, PFloat 0.1]);
          estimator = SVR kernel'
      in
      bind (svm_set kernel' optimize_feature_selection)
        (\<lambda>(calc_feature_importance, optimize_feature_selection).
      bind (split_optimize_classify E
           \<lparr>soc_table = table, soc_metadata = metadata, soc_category = category,
            soc_estimator = estimator, soc_output_dir = output_dir,
            soc_test_size = test_size, soc_step = step, soc_cv = cv,
            soc_random_state = random_state, soc_n_jobs = n_jobs,
            soc_optimize_feature_selection = optimize_feature_selection,
            soc_parameter_tuning = parameter_tuning, soc_param_dist = param_dist,
            soc_calc_feature_importance = calc_feature_importance,
            soc_scoring = Some mean_squared_error, soc_classification = Some False\<rparr>)
        (\<lambda>(estimator, cm, accuracy, importances).
      bind (visualize E output_dir estimator cm accuracy importances optimize_feature_selection)
        (\<lambda>_.
      return PNone))))"

definition regress_ridge ::
  "env \<Rightarrow> string \<Rightarrow> pyval \<Rightarrow> pyval \<Rightarrow> string \<Rightarrow> rat \<Rightarrow> rat \<Rightarrow> int \<Rightarrow> int option \<Rightarrow> int \<Rightarrow>
   bool \<Rightarrow> bool \<Rightarrow> string \<Rightarrow> pyval prog" where
  "regress_ridge E output_dir table metadata category test_size step cv random_state n_jobs
     parameter_tuning optimize_feature_selection solver =
     (let param_dist = linear_params;
          estimator = Ridge solver
      in
      bind (split_optimize_classify E
           \<lparr>soc_table = table, soc_metadata = metadata, soc_category = category,
            soc_estimator = estimator, soc_output_dir = output_dir,
            soc_test_size = test_size, soc_step = step, soc_cv = cv,
            soc_random_state = random_state, soc_n_jobs = n_jobs,
            soc_optimize_feature_selection = optimize_feature_selection,
            soc_parameter_tuning = parameter_tuning, soc_param_dist = param_dist,
            soc_calc_feature_importance = True,
            soc_scoring = Some mean_squared_error, soc_classification = Some False\<rparr>)
        (\<lambda>(estimator, cm, accuracy, importances).
      bind (visualize E output_dir estimator cm accuracy importances optimize_feature_selection)
        (\<lambda>_.
      return PNone)))"

definition regress_lasso ::
  "env \<Rightarrow> string \<Rightarrow> pyval \<Rightarrow> pyval \<Rightarrow> string \<Rightarrow> rat \<Rightarrow> rat \<Rightarrow> int \<Rightarrow> int option \<Rightarrow> int \<Rightarrow>
   bool \<Rightarrow> bool \<Rightarrow> pyval prog" where
  "regress_lasso E output_dir table metadata category test_size step cv random_state n_jobs
     optimize_feature_selection parameter_tuning =
     (let param_dist = linear_params;
          estimator = Lasso
      in
      bind (split_optimize_classify E
           \<lparr>soc_table = table, soc_metadata = metadata, soc_category = category,
            soc_estimator = estimator, soc_output_dir = output_dir,
            soc_test_size = test_size, soc_step = step, soc_cv = cv,
            soc_random_state = random_state, soc_n_jobs = n_jobs,
            soc_optimize_feature_selection = optimize_feature_selection,
            soc_parameter_tuning = parameter_tuning, soc_param_dist = param_dist,
            soc_calc_feature_importance = True,
            soc_scoring = Some mean_squared_error, soc_classification = Some False\<rparr>)
        (\<lambda>(estimator, cm, accuracy, importances).
      bind (visualize E output_dir estimator cm accuracy importances optimize_feature_selection)
        (\<lambda>_.
      return PNone)))"

definition regress_elasticnet ::
  "env \<Rightarrow> string \<Rightarrow> pyval \<Rightarrow> pyval \<Rightarrow> string \<Rightarrow> rat \<Rightarrow> rat \<Rightarrow> int \<Rightarrow> int option \<Rightarrow> int \<Rightarrow>
   bool \<Rightarrow> bool \<Rightarrow> pyval prog" where
  "regress_elasticnet E output_dir table metadata category test_size step cv random_state n_jobs
     optimize_feature_selection parameter_tuning =
     (let param_dist = linear_params;
          estimator = ElasticNet
      in
      bind (split_optimize_classify E
           \<lparr>soc_table = table, soc_metadata = metadata, soc_category = category,
            soc_estimator = estimator, soc_output_dir = output_dir,
            soc_test_size = test_size, soc_step = step, soc_cv = cv,
            soc_random_state = random_state, soc_n_jobs = n_jobs,
            soc_optimize_feature_selection = optimize_feature_selection,
            soc_parameter_tuning = parameter_tuning, soc_param_dist = param_dist,
            soc_calc_feature_importance = True,
            soc_scoring = Some mean_squared_error, soc_classification = Some False\<rparr>)
        (\<lambda>(estimator, cm, accuracy, importances).
      bind (visualize E output_dir estimator cm accuracy importances optimize_feature_selection)
        (\<lambda>_.
      return PNone)))"

definition classify_kneighbors ::
  "env \<Rightarrow> string \<Rightarrow> pyval \<Rightarrow> pyval \<Rightarrow> string \<Rightarrow> rat \<Rightarrow> rat \<Rightarrow> int \<Rightarrow> int option \<Rightarrow> int \<Rightarrow>
   bool \<Rightarrow> string \<Rightarrow> pyval prog" where
  "classify_kneighbors E output_dir table metadata category test_size step cv random_state n_jobs
     parameter_tuning algorithm =
     (let param_dist = neighbors_params;
          estimator = KNeighborsClassifier algorithm
      in
      bind (split_optimize_classify E
           \<lparr>soc_table = table, soc_metadata = metadata, soc_category = category,
            soc_estimator = estimator, soc_output_dir = output_dir,
            soc_test_size = test_size, soc_step = step, soc_cv = cv,
            soc_random_state = random_state, soc_n_jobs = n_jobs,
            soc_optimize_feature_selection = False,
            soc_parameter_tuning = parameter_tuning, soc_param_dist = param_dist,
            soc_calc_feature_importance = False,
            soc_scoring = None, soc_classification = None\<rparr>)
        (\<lambda>(estimator, cm, accuracy, importances).
      bind (visualize E output_dir estimator cm accuracy importances False)
        (\<lambda>_.
      return PNone)))"

definition regress_kneighbors ::
  "env \<Rightarrow> string \<Rightarrow> pyval \<Rightarrow> pyval \<Rightarrow> string \<Rightarrow> rat \<Rightarrow> rat \<Rightarrow> int \<Rightarrow> int option \<Rightarrow> int \<Rightarrow>
   bool \<Rightarrow> string \<Rightarrow> pyval prog" where
  "regress_kneighbors E output_dir table metadata category test_size step cv random_state n_jobs
     parameter_tuning algorithm =
     (let param_dist = neighbors_params;
          estimator = KNeighborsRegressor algorithm
      in
      bind (split_optimize_classify E
           \<lparr>soc_table = table, soc_metadata = metadata, soc_category = category,
            soc_estimator = estimator, soc_output_dir = output_dir,
            soc_test_size = test_size, soc_step = step, soc_cv = cv,
            soc_random_state = random_state, soc_n_jobs = n_jobs,
            soc_optimize_feature_selection = False,
            soc_parameter_tuning = parameter_tuning, soc_param_dist = param_dist,
            soc_calc_feature_importance = False,
            soc_scoring = Some mean_squared_error, soc_classification = Some False\<rparr>)
        (\<lambda>(estimator, cm, accuracy, importances).
      bind (visualize E output_dir estimator cm accuracy importances False)
        (\<lambda>_.
      return PNone)))"


text \<open>Use a trained estimator to predict values on unseen data.\<close>

definition classify_new_data :: "env \<Rightarrow> pyval \<Rightarrow> estimator \<Rightarrow> pyval prog" where
  "classify_new_data E table estimator =
     bind (predict E estimator table) (\<lambda>predictions.
     return predictions)"

section \<open>Calling an entry point by name\<close>

text \<open>
  The sixteen functions that take an \<^verbatim>\<open>output_dir\<close> are the entry points of the module.
  \<open>call_args\<close> holds a value for every parameter that any of them has; \<open>invoke\<close> calls
  the entry point with the parameters its signature lists, in the signature's order, and
  ignores the rest.
\<close>

datatype entry_point =
    Classify_random_forest
  | Classify_extra_trees
  | Classify_adaboost
  | Classify_gradient_boosting
  | Regress_random_forest
  | Regress_extra_trees
  | Regress_adaboost
  | Regress_gradient_boosting
  | Classify_linearSVC
  | Classify_SVC
  | Regress_SVR
  | Regress_ridge
  | Regress_lasso
  | Regress_elasticnet
  | Classify_kneighbors
  | Regress_kneighbors

record call_args =
  arg_output_dir :: string
  arg_table :: pyval
  arg_metadata :: pyval
  arg_category :: string
  arg_test_size :: rat
  arg_step :: rat
  arg_cv :: int
  arg_random_state :: "int option"
  arg_n_jobs :: int
  arg_n_estimators :: int
  arg_optimize_feature_selection :: bool
  arg_parameter_tuning :: bool
  arg_kernel :: string
  arg_solver :: string
  arg_algorithm :: string

fun invoke :: "env \<Rightarrow> entry_point \<Rightarrow> call_args \<Rightarrow> pyval prog" where
  "invoke E Classify_random_forest x =
     classify_random_forest E (arg_output_dir x) (arg_table x) (arg_metadata x) (arg_category x)
       (arg_test_size x) (arg_step x) (arg_cv x) (arg_random_state x) (arg_n_jobs x)
       (arg_n_estimators x) (arg_optimize_feature_selection x) (arg_parameter_tuning x)"
| "invoke E Classify_extra_trees x =
     classify_extra_trees E (arg_output_dir x) (arg_table x) (arg_metadata x) (arg_category x)
       (arg_test_size x) (arg_step x) (arg_cv x) (arg_random_state x) (arg_n_jobs x)
       (arg_n_estimators x) (arg_optimize_feature_selection x) (arg_parameter_tuning x)"
| "invoke E Classify_adaboost x =
     classify_adaboost E (arg_output_dir x) (arg_table x) (arg_metadata x) (arg_category x)
       (arg_test_size x) (arg_step x) (arg_cv x) (arg_random_state x) (arg_n_jobs x)
       (arg_n_estimators x) (arg_optimize_feature_selection x) (arg_parameter_tuning x)"
| "invoke E Classify_gradient_boosting x =
     classify_gradient_boosting E (arg_output_dir x) (arg_table x) (arg_metadata x) (arg_category x)
       (arg_test_size x) (arg_step x) (arg_cv x) (arg_random_state x) (arg_n_jobs x)
       (arg_n_estimators x) (arg_optimize_feature_selection x) (arg_parameter_tuning x)"
| "invoke E Regress_random_forest x =
     regress_random_forest E (arg_output_dir x) (arg_table x) (arg_metadata x) (arg_category x)
       (arg_test_size x) (arg_step x) (arg_cv x) (arg_random_state x) (arg_n_jobs x)
       (arg_n_estimators x) (arg_optimize_feature_selection x) (arg_parameter_tuning x)"
| "invoke E Regress_extra_trees x =
     regress_extra_trees E (arg_output_dir x) (arg_table x) (arg_metadata x) (arg_category x)
       (arg_test_size x) (arg_step x) (arg_cv x) (arg_random_state x) (arg_n_jobs x)
       (arg_n_estimators x) (arg_optimize_feature_selection x) (arg_parameter_tuning x)"
| "invoke E Regress_adaboost x =
     regress_adaboost E (arg_output_dir x) (arg_table x) (arg_metadata x) (arg_category x)
       (arg_test_size x) (arg_step x) (arg_cv x) (arg_random_state x) (arg_n_jobs x)
       (arg_n_estimators x) (arg_optimize_feature_selection x) (arg_parameter_tuning x)"
| "invoke E Regress_gradient_boosting x =
     regress_gradient_boosting E (arg_output_dir x) (arg_table x) (arg_metadata x) (arg_category x)
       (arg_test_size x) (arg_step x) (arg_cv x) (arg_random_state x) (arg_n_jobs x)
       (arg_n_estimators x) (arg_optimize_feature_selection x) (arg_parameter_tuning x)"
| "invoke E Classify_linearSVC x =
     classify_linearSVC E (arg_output_dir x) (arg_table x) (arg_metadata x) (arg_category x)
       (arg_test_size x) (arg_step x) (arg_cv x) (arg_random_state x) (arg_n_jobs x)
       (arg_parameter_tuning x) (arg_optimize_feature_selection x)"
| "invoke E Classify_SVC x =
     classify_SVC E (arg_output_dir x) (arg_table x) (arg_metadata x) (arg_category x)
       (arg_test_size x) (arg_step x) (arg_cv x) (arg_random_state x) (arg_n_jobs x)
       (arg_parameter_tuning x) (arg_optimize_feature_selection x) (arg_kernel x)"
| "invoke E Regress_SVR x =
     regress_SVR E (arg_output_dir x) (arg_table x) (arg_metadata x) (arg_category x)
       (arg_test_size x) (arg_step x) (arg_cv x) (arg_random_state x) (arg_n_jobs x)
       (arg_parameter_tuning x) (arg_optimize_feature_selection x) (arg_kernel x)"
| "invoke E Regress_ridge x =
     regress_ridge E (arg_output_dir x) (arg_table x) (arg_metadata x) (arg_category x)
       (arg_test_size x) (arg_step x) (arg_cv x) (arg_random_state x) (arg_n_jobs x)
       (arg_parameter_tuning x) (arg_optimize_feature_selection x) (arg_solver x)"
| "invoke E Regress_lasso x =
     regress_lasso E (arg_output_dir x) (arg_table x) (arg_metadata x) (arg_category x)
       (arg_test_size x) (arg_step x) (arg_cv x) (arg_random_state x) (arg_n_jobs x)
       (arg_optimize_feature_selection x) (arg_parameter_tuning x)"
| "invoke E Regress_elasticnet x =
     regress_elasticnet E (arg_output_dir x) (arg_table x) (arg_metadata x) (arg_category x)
       (arg_test_size x) (arg_step x) (arg_cv x) (arg_random_state x) (arg_n_jobs x)
       (arg_optimize_feature_selection x) (arg_parameter_tuning x)"
| "invoke E Classify_kneighbors x =
     classify_kneighbors E (arg_output_dir x) (arg_table x) (arg_metadata x) (arg_category x)
       (arg_test_size x) (arg_step x) (arg_cv x) (arg_random_state x) (arg_n_jobs x)
       (arg_parameter_tuning x) (arg_algorithm x)"
| "invoke E Regress_kneighbors x =
     regress_kneighbors E (arg_output_dir x) (arg_table x) (arg_metadata x) (arg_category x)
       (arg_test_size x) (arg_step x) (arg_cv x) (arg_random_state x) (arg_n_jobs x)
       (arg_parameter_tuning x) (arg_algorithm x)"

text \<open>The entry points by the prefix of their name.\<close>

fun is_classify :: "entry_point \<Rightarrow> bool" where
  "is_classify Classify_random_forest = True"
| "is_classify Classify_extra_trees = True"
| "is_classify Classify_adaboost = True"
| "is_classify Classify_gradient_boosting = True"
| "is_classify Classify_linearSVC = True"
| "is_classify Classify_SVC = True"
| "is_classify Classify_kneighbors = True"
| "is_classify _ = False"

fun is_regress :: "entry_point \<Rightarrow> bool" where
  "is_regress Regress_random_forest = True"
| "is_regress Regress_extra_trees = True"
| "is_regress Regress_adaboost = True"
| "is_regress Regress_gradient_boosting = True"
| "is_regress Regress_SVR = True"
| "is_regress Regress_ridge = True"
| "is_regress Regress_lasso = True"
| "is_regress Regress_elasticnet = True"
| "is_regress Regress_kneighbors = True"
| "is_regress _ = False"

section \<open>Reading a trace\<close>

text \<open>The calls of one collaborator in a trace, in order, each with its arguments.\<close>

fun soc_calls :: "event list \<Rightarrow> soc_args list" where
  "soc_calls [] = []"
| "soc_calls (SplitOptimizeClassify a # t) = a # soc_calls t"
| "soc_calls (_ # t) = soc_calls t"

fun load_data_calls :: "event list \<Rightarrow> (pyval \<times> pyval \<times> bool) list" where
  "load_data_calls [] = []"
| "load_data_calls (LoadData tbl md tr # t) = (tbl, md, tr) # load_data_calls t"
| "load_data_calls (_ # t) = load_data_calls t"

fun tune_calls ::
  "event list \<Rightarrow> (pyval \<times> pyval \<times> estimator \<times> dict \<times> int \<times> int \<times> int option) list" where
  "tune_calls [] = []"
| "tune_calls (TuneParameters X y est pd nj folds rs # t) =
     (X, y, est, pd, nj, folds, rs) # tune_calls t"
| "tune_calls (_ # t) = tune_calls t"

fun visualize_calls ::
  "event list \<Rightarrow> (string \<times> estimator \<times> pyval \<times> pyval \<times> pyval \<times> bool) list" where
  "visualize_calls [] = []"
| "visualize_calls (Visualize dir est m acc imp ofs # t) =
     (dir, est, m, acc, imp, ofs) # visualize_calls t"
| "visualize_calls (_ # t) = visualize_calls t"

fun warnings_of :: "event list \<Rightarrow> (string \<times> warning_category) list" where
  "warnings_of [] = []"
| "warnings_of (Warn message c # t) = (message, c) # warnings_of t"
| "warnings_of (_ # t) = warnings_of t"

text \<open>
  What the environment answers to a call: \<open>Some n\<close> when the collaborator raises exception
  \<open>n\<close>, \<open>None\<close> when it returns. A warning never raises.
\<close>

fun raised_by :: "env \<Rightarrow> event \<Rightarrow> nat option" where
  "raised_by E (LoadData tbl md tr) =
     (case env_load_data E tbl md tr of Inl n \<Rightarrow> Some n | Inr _ \<Rightarrow> None)"
| "raised_by E (GetItem obj key) =
     (case env_getitem E obj key of Inl n \<Rightarrow> Some n | Inr _ \<Rightarrow> None)"
| "raised_by E (TuneParameters X y est pd nj folds rs) =
     (case env_tune_parameters E X y est pd nj folds rs of Inl n \<Rightarrow> Some n | Inr _ \<Rightarrow> None)"
| "raised_by E (SplitOptimizeClassify a) =
     (case env_split_optimize_classify E a of Inl n \<Rightarrow> Some n | Inr _ \<Rightarrow> None)"
| "raised_by E (Visualize dir est m acc imp ofs) =
     (case env_visualize E dir est m acc imp ofs of Inl n \<Rightarrow> Some n | Inr _ \<Rightarrow> None)"
| "raised_by E (Predict est tbl) =
     (case env_predict E est tbl of Inl n \<Rightarrow> Some n | Inr _ \<Rightarrow> None)"
| "raised_by E (Warn message c) = None"

section \<open>Sample environments and arguments\<close>

text \<open>An environment in which every collaborator returns, and the arguments of a call.\<close>

definition sample_env :: env where
  "sample_env =
     \<lparr>env_load_data = (\<lambda>_ _ _. Inr (Obj 1, Obj 2)),
      env_getitem = (\<lambda>_ _. Inr (Obj 3)),
      env_tune_parameters = (\<lambda>_ _ _ _ _ _ _. Inr (EstimatorObject 4)),
      env_split_optimize_classify = (\<lambda>_. Inr (EstimatorObject 5, Obj 6, Obj 7, Obj 8)),
      env_visualize = (\<lambda>_ _ _ _ _ _. Inr PNone),
      env_predict = (\<lambda>_ _. Inr (Obj 9))\<rparr>"

definition sample_args :: call_args where
  "sample_args =
     \<lparr>arg_output_dir = ''out'', arg_table = Obj 10, arg_metadata = Obj 11,
      arg_category = ''site'', arg_test_size = 0.2, arg_step = 0.05, arg_cv = 5,
      arg_random_state = None, arg_n_jobs = 1, arg_n_estimators = 100,
      arg_optimize_feature_selection = True, arg_parameter_tuning = True,
      arg_kernel = ''rbf'', arg_solver = ''auto'', arg_algorithm = ''auto''\<rparr>"

section \<open>Auxiliary definitions for the proofs\<close>

text \<open>
  The last two statements of every entry point: the call of \<^verbatim>\<open>split_optimize_classify\<close>,
  then the call of \<^verbatim>\<open>visualize\<close> on its four results, then the end of the function.
\<close>

definition report :: "env \<Rightarrow> soc_args \<Rightarrow> string \<Rightarrow> bool \<Rightarrow> pyval prog" where
  "report E a output_dir ofs =
     bind (split_optimize_classify E a) (\<lambda>(estimator, cm, accuracy, importances).
     bind (visualize E output_dir estimator cm accuracy importances ofs) (\<lambda>_.
     return PNone))"

text \<open>
  The block \<^verbatim>\<open>if parameter_tuning: ...\<close> of the two AdaBoost entry points; its value is the
  base estimator after the block.
\<close>

definition pretune ::
  "env \<Rightarrow> pyval \<Rightarrow> pyval \<Rightarrow> string \<Rightarrow> estimator \<Rightarrow> dict \<Rightarrow> int \<Rightarrow> int \<Rightarrow> int option \<Rightarrow> bool \<Rightarrow>
   estimator prog" where
  "pretune E table metadata category base_estimator param_dist n_jobs cv random_state
     parameter_tuning =
     (if parameter_tuning
      then bind (load_data E table metadata True) (\<lambda>(features, targets).
           bind (getitem E targets category) (\<lambda>targets_category.
           tune_parameters E features targets_category base_estimator param_dist
             n_jobs cv random_state))
      else return base_estimator)"

text \<open>The dictionary that the comprehension over \<open>ensemble_params\<close> evaluates to.\<close>

definition boosting_params :: dict where
  "boosting_params =
     [(''max_depth'', PList [PInt 4, PInt 8, PInt 16, PNone]),
      (''max_features'', PList [PNone, PStr ''sqrt'', PStr ''log2'', PFloat 0.1]),
      (''min_samples_split'', PList [PFloat 0.001, PFloat 0.01, PFloat 0.1]),
      (''min_weight_fraction_leaf'', PList [PFloat 0.0001, PFloat 0.001, PFloat 0.01])]"

text \<open>
  A run neither raises an exception of its own nor swallows one: either it ends with a
  value and every collaborator it called returned, or it ends with an exception, and then
  its last event is a call that raised exactly this exception, every earlier call having
  returned.
\<close>

definition propagates :: "env \<Rightarrow> 'a prog \<Rightarrow> bool" where
  "propagates E run =
     (case fst run of
        Inr v \<Rightarrow> list_all (\<lambda>ev. raised_by E ev = None) (snd run)
      | Inl e \<Rightarrow>
          snd run \<noteq> [] \<and>
          list_all (\<lambda>ev. raised_by E ev = None) (butlast (snd run)) \<and>
          (case raised_by E (last (snd run)) of None \<Rightarrow> False | Some n \<Rightarrow> e = Foreign n))"

section \<open>Sequencing and the collaborator calls\<close>

lemma bind_return [simp]: "bind (return x) f = f x"
  by (simp add: bind_def return_def split: prod.splits)

lemma fst_bind:
  "fst (bind m f) = (case fst m of Inl e \<Rightarrow> Inl e | Inr x \<Rightarrow> fst (f x))"
  by (simp add: bind_def split: prod.splits sum.splits)

lemma snd_bind:
  "snd (bind m f) = (case fst m of Inl e \<Rightarrow> snd m | Inr x \<Rightarrow> snd m @ snd (f x))"
  by (simp add: bind_def split: prod.splits sum.splits)

lemma fst_call: "fst (call ev r) = (case r of Inl n \<Rightarrow> Inl (Foreign n) | Inr x \<Rightarrow> Inr x)"
  by (simp add: call_def split: sum.splits)

lemma snd_call: "snd (call ev r) = [ev]"
  by (simp add: call_def split: sum.splits)

section \<open>The shared tail and the pre-tuning block\<close>

lemma report_trace:
  "snd (report E a dir ofs) =
     SplitOptimizeClassify a #
       (case env_split_optimize_classify E a of
          Inl n \<Rightarrow> []
        | Inr (est, m, acc, imp) \<Rightarrow> [Visualize dir est m acc imp ofs])"
  by (simp add: report_def snd_bind fst_bind split_optimize_classify_def visualize_def
      fst_call snd_call return_def split: sum.splits prod.splits)

lemma report_result:
  "fst (report E a dir ofs) =
     (case env_split_optimize_classify E a of
        Inl n \<Rightarrow> Inl (Foreign n)
      | Inr (est, m, acc, imp) \<Rightarrow>
          (case env_visualize E dir est m acc imp ofs of
             Inl n \<Rightarrow> Inl (Foreign n)
           | Inr _ \<Rightarrow> Inr PNone))"
  by (simp add: report_def snd_bind fst_bind split_optimize_classify_def visualize_def
      fst_call snd_call return_def split: sum.splits prod.splits)

lemma pretune_trace:
  "snd (pretune E tb md cat base pd nj folds rs pt) =
     (if pt
      then LoadData tb md True #
        (case env_load_data E tb md True of
           Inl n \<Rightarrow> []
         | Inr (X, tg) \<Rightarrow> GetItem tg cat #
             (case env_getitem E tg cat of
                Inl n \<Rightarrow> []
              | Inr y \<Rightarrow> [TuneParameters X y base pd nj folds rs]))
      else [])"
  by (simp add: pretune_def snd_bind fst_bind load_data_def getitem_def tune_parameters_def
      fst_call snd_call return_def split: sum.splits prod.splits)

lemma pretune_result:
  "fst (pretune E tb md cat base pd nj folds rs pt) =
     (if pt
      then (case env_load_data E tb md True of
              Inl n \<Rightarrow> Inl (Foreign n)
            | Inr (X, tg) \<Rightarrow>
                (case env_getitem E tg cat of
                   Inl n \<Rightarrow> Inl (Foreign n)
                 | Inr y \<Rightarrow>
                     (case env_tune_parameters E X y base pd nj folds rs of
                        Inl n \<Rightarrow> Inl (Foreign n)
                      | Inr b \<Rightarrow> Inr b)))
      else Inr base)"
  by (simp add: pretune_def snd_bind fst_bind load_data_def getitem_def tune_parameters_def
      fst_call snd_call return_def split: sum.splits prod.splits)

section \<open>The comprehension and the SVM helper\<close>

lemma ensemble_params_without_bootstrap_value:
  "ensemble_params_without_bootstrap = return boosting_params"
  by (simp add: ensemble_params_without_bootstrap_def ensemble_params_def keys_def
      dict_getitem_def boosting_params_def)

lemma svm_set_linear: "svm_set ''linear'' ofs = return (True, ofs)"
  by (simp add: svm_set_def)

lemma svm_set_nonlinear:
  "k \<noteq> ''linear'' \<Longrightarrow>
   svm_set k ofs =
     (Inr (False, False),
      [Warn ''This estimator does not support recursive feature extraction with the parameter settings requested. See documentation or try a different estimator model.''
         UserWarning])"
  by (simp add: svm_set_def warn_feature_selection_def warnings_warn_def bind_def return_def)

section \<open>Every entry point in terms of the shared tail\<close>

lemma classify_random_forest_report:
  "classify_random_forest E output_dir table metadata category test_size step cv random_state n_jobs
     n_estimators optimize_feature_selection parameter_tuning =
   report E
       \<lparr>soc_table = table, soc_metadata = metadata, soc_category = category,
        soc_estimator = RandomForestClassifier n_jobs n_estimators,
        soc_output_dir = output_dir, soc_test_size = test_size, soc_step = step,
        soc_cv = cv, soc_random_state = random_state, soc_n_jobs = n_jobs,
        soc_optimize_feature_selection = optimize_feature_selection,
        soc_parameter_tuning = parameter_tuning,
        soc_param_dist = dict_setitem ensemble_params ''criterion'' (PList [PStr ''gini'', PStr ''entropy'']),
        soc_calc_feature_importance = True,
        soc_scoring = None, soc_classification = None\<rparr>
     output_dir optimize_feature_selection"
  by (simp add: classify_random_forest_def report_def Let_def ensemble_params_without_bootstrap_value)

lemma classify_extra_trees_report:
  "classify_extra_trees E output_dir table metadata category test_size step cv random_state n_jobs
     n_estimators optimize_feature_selection parameter_tuning =
   report E
       \<lparr>soc_table = table, soc_metadata = metadata, soc_category = category,
        soc_estimator = ExtraTreesClassifier n_jobs n_estimators,
        soc_output_dir = output_dir, soc_test_size = test_size, soc_step = step,
        soc_cv = cv, soc_random_state = random_state, soc_n_jobs = n_jobs,
        soc_optimize_feature_selection = optimize_feature_selection,
        soc_parameter_tuning = parameter_tuning,
        soc_param_dist = dict_setitem ensemble_params ''criterion'' (PList [PStr ''gini'', PStr ''entropy'']),
        soc_calc_feature_importance = True,
        soc_scoring = None, soc_classification = None\<rparr>
     output_dir optimize_feature_selection"
  by (simp add: classify_extra_trees_def report_def Let_def ensemble_params_without_bootstrap_value)

lemma classify_adaboost_report:
  "classify_adaboost E output_dir table metadata category test_size step cv random_state n_jobs
     n_estimators optimize_feature_selection parameter_tuning =
   bind (pretune E table metadata category DecisionTreeClassifier boosting_params n_jobs cv random_state
           parameter_tuning)
     (\<lambda>base_estimator. report E
       \<lparr>soc_table = table, soc_metadata = metadata, soc_category = category,
        soc_estimator = AdaBoostClassifier base_estimator n_estimators,
        soc_output_dir = output_dir, soc_test_size = test_size, soc_step = step,
        soc_cv = cv, soc_random_state = random_state, soc_n_jobs = n_jobs,
        soc_optimize_feature_selection = optimize_feature_selection,
        soc_parameter_tuning = False,
        soc_param_dist = boosting_params,
        soc_calc_feature_importance = True,
        soc_scoring = None, soc_classification = None\<rparr>
     output_dir optimize_feature_selection)"
  by (simp add: classify_adaboost_def report_def pretune_def Let_def ensemble_params_without_bootstrap_value)

lemma classify_gradient_boosting_report:
  "classify_gradient_boosting E output_dir table metadata category test_size step cv random_state n_jobs
     n_estimators optimize_feature_selection parameter_tuning =
   report E
       \<lparr>soc_table = table, soc_metadata = metadata, soc_category = category,
        soc_estimator = GradientBoostingClassifier n_estimators,
        soc_output_dir = output_dir, soc_test_size = test_size, soc_step = step,
        soc_cv = cv, soc_random_state = random_state, soc_n_jobs = n_jobs,
        soc_optimize_feature_selection = optimize_feature_selection,
        soc_parameter_tuning = parameter_tuning,
        soc_param_dist = boosting_params,
        soc_calc_feature_importance = True,
        soc_scoring = None, soc_classification = None\<rparr>
     output_dir optimize_feature_selection"
  by (simp add: classify_gradient_boosting_def report_def Let_def ensemble_params_without_bootstrap_value)

lemma regress_random_forest_report:
  "regress_random_forest E output_dir table metadata category test_size step cv random_state n_jobs
     n_estimators optimize_feature_selection parameter_tuning =
   report E
       \<lparr>soc_table = table, soc_metadata = metadata, soc_category = category,
        soc_estimator = RandomForestRegressor n_jobs n_estimators,
        soc_output_dir = output_dir, soc_test_size = test_size, soc_step = step,
        soc_cv = cv, soc_random_state = random_state, soc_n_jobs = n_jobs,
        soc_optimize_feature_selection = optimize_feature_selection,
        soc_parameter_tuning = parameter_tuning,
        soc_param_dist = ensemble_params,
        soc_calc_feature_importance = True,
        soc_scoring = Some mean_squared_error, soc_classification = Some False\<rparr>
     output_dir optimize_feature_selection"
  by (simp add: regress_random_forest_def report_def Let_def ensemble_params_without_bootstrap_value)

lemma regress_extra_trees_report:
  "regress_extra_trees E output_dir table metadata category test_size step cv random_state n_jobs
     n_estimators optimize_feature_selection parameter_tuning =
   report E
       \<lparr>soc_table = table, soc_metadata = metadata, soc_category = category,
        soc_estimator = ExtraTreesRegressor n_jobs n_estimators,
        soc_output_dir = output_dir, soc_test_size = test_size, soc_step = step,
        soc_cv = cv, soc_random_state = random_state, soc_n_jobs = n_jobs,
        soc_optimize_feature_selection = optimize_feature_selection,
        soc_parameter_tuning = parameter_tuning,
        soc_param_dist = ensemble_params,
        soc_calc_feature_importance = True,
        soc_scoring = Some mean_squared_error, soc_classification = Some False\<rparr>
     output_dir optimize_feature_selection"
  by (simp add: regress_extra_trees_def report_def Let_def ensemble_params_without_bootstrap_value)

lemma regress_adaboost_report:
  "regress_adaboost E output_dir table metadata category test_size step cv random_state n_jobs
     n_estimators optimize_feature_selection parameter_tuning =
   bind (pretune E table metadata category DecisionTreeRegressor boosting_params n_jobs cv random_state
           parameter_tuning)
     (\<lambda>base_estimator. report E
       \<lparr>soc_table = table, soc_metadata = metadata, soc_category = category,
        soc_estimator = AdaBoostRegressor base_estimator n_estimators,
        soc_output_dir = output_dir, soc_test_size = test_size, soc_step = step,
        soc_cv = cv, soc_random_state = random_state, soc_n_jobs = n_jobs,
        soc_optimize_feature_selection = optimize_feature_selection,
        soc_parameter_tuning = False,
        soc_param_dist = boosting_params,
        soc_calc_feature_importance = True,
        soc_scoring = Some mean_squared_error, soc_classification = Some False\<rparr>
     output_dir optimize_feature_selection)"
  by (simp add: regress_adaboost_def report_def pretune_def Let_def ensemble_params_without_bootstrap_value)

lemma regress_gradient_boosting_report:
  "regress_gradient_boosting E output_dir table metadata category test_size step cv random_state n_jobs
     n_estimators optimize_feature_selection parameter_tuning =
   report E
       \<lparr>soc_table = table, soc_metadata = metadata, soc_category = category,
        soc_estimator = GradientBoostingRegressor n_estimators,
        soc_output_dir = output_dir, soc_test_size = test_size, soc_step = step,
        soc_cv = cv, soc_random_state = random_state, soc_n_jobs = n_jobs,
        soc_optimize_feature_selection = optimize_feature_selection,
        soc_parameter_tuning = parameter_tuning,
        soc_param_dist = boosting_params,
        soc_calc_feature_importance = True,
        soc_scoring = Some mean_squared_error, soc_classification = Some False\<rparr>
     output_dir optimize_feature_selection"
  by (simp add: regress_gradient_boosting_def report_def Let_def ensemble_params_without_bootstrap_value)

lemma classify_linearSVC_report:
  "classify_linearSVC E output_dir table metadata category test_size step cv random_state n_jobs
     parameter_tuning optimize_feature_selection =
   report E
       \<lparr>soc_table = table, soc_metadata = metadata, soc_category = category,
        soc_estimator = LinearSVC,
        soc_output_dir = output_dir, soc_test_size = test_size, soc_step = step,
        soc_cv = cv, soc_random_state = random_state, soc_n_jobs = n_jobs,
        soc_optimize_feature_selection = optimize_feature_selection,
        soc_parameter_tuning = parameter_tuning,
        soc_param_dist = linear_svm_params,
        soc_calc_feature_importance = True,
        soc_scoring = None, soc_classification = None\<rparr>
     output_dir optimize_feature_selection"
  by (simp add: classify_linearSVC_def report_def Let_def ensemble_params_without_bootstrap_value)

lemma classify_SVC_report:
  "classify_SVC E output_dir table metadata category test_size step cv random_state n_jobs
     parameter_tuning optimize_feature_selection kernel' =
   bind (svm_set kernel' optimize_feature_selection)
     (\<lambda>(calc_feature_importance, optimize_feature_selection). report E
       \<lparr>soc_table = table, soc_metadata = metadata, soc_category = category,
        soc_estimator = SVC kernel',
        soc_output_dir = output_dir, soc_test_size = test_size, soc_step = step,
        soc_cv = cv, soc_random_state = random_state, soc_n_jobs = n_jobs,
        soc_optimize_feature_selection = optimize_feature_selection,
        soc_parameter_tuning = parameter_tuning,
        soc_param_dist = svm_params,
        soc_calc_feature_importance = calc_feature_importance,
        soc_scoring = None, soc_classification = None\<rparr>
     output_dir optimize_feature_selection)"
  by (simp add: classify_SVC_def report_def Let_def)

lemma regress_SVR_report:
  "regress_SVR E output_dir table metadata category test_size step cv random_state n_jobs
     parameter_tuning optimize_feature_selection kernel' =
   bind (svm_set kernel' optimize_feature_selection)
     (\<lambda>(calc_feature_importance, optimize_feature_selection). report E
       \<lparr>soc_table = table, soc_metadata = metadata, soc_category = category,
        soc_estimator = SVR kernel',
        soc_output_dir = output_dir, soc_test_size = test_size, soc_step = step,
        soc_cv = cv, soc_random_state = random_state, soc_n_jobs = n_jobs,
        soc_optimize_feature_selection = optimize_feature_selection,
        soc_parameter_tuning = parameter_tuning,
        soc_param_dist = dict_setitem svm_params ''epsilon'' (PList [PFloat 0.0, PFloat 0.1]),
        soc_calc_feature_importance = calc_feature_importance,
        soc_scoring = Some mean_squared_error, soc_classification = Some False\<rparr>
     output_dir optimize_feature_selection)"
  by (simp add: regress_SVR_def report_def Let_def)

lemma regress_ridge_report:
  "regress_ridge E output_dir table metadata category test_size step cv random_state n_jobs
     parameter_tuning optimize_feature_selection solver =
   report E
       \<lparr>soc_table = table, soc_metadata = metadata, soc_category = category,
        soc_estimator = Ridge solver,
        soc_output_dir = output_dir, soc_test_size = test_size, soc_step = step,
        soc_cv = cv, soc_random_state = random_state, soc_n_jobs = n_jobs,
        soc_optimize_feature_selection = optimize_feature_selection,
        soc_parameter_tuning = parameter_tuning,
        soc_param_dist = linear_params,
        soc_calc_feature_importance = True,
        soc_scoring = Some mean_squared_error, soc_classification = Some False\<rparr>
     output_dir optimize_feature_selection"
  by (simp add: regress_ridge_def report_def Let_def ensemble_params_without_bootstrap_value)

lemma regress_lasso_report:
  "regress_lasso E output_dir table metadata category test_size step cv random_state n_jobs
     optimize_feature_selection parameter_tuning =
   report E
       \<lparr>soc_table = table, soc_metadata = metadata, soc_category = category,
        soc_estimator = Lasso,
        soc_output_dir = output_dir, soc_test_size = test_size, soc_step = step,
        soc_cv = cv, soc_random_state = random_state, soc_n_jobs = n_jobs,
        soc_optimize_feature_selection = optimize_feature_selection,
        soc_parameter_tuning = parameter_tuning,
        soc_param_dist = linear_params,
        soc_calc_feature_importance = True,
        soc_scoring = Some mean_squared_error, soc_classification = Some False\<rparr>
     output_dir optimize_feature_selection"
  by (simp add: regress_lasso_def report_def Let_def ensemble_params_without_bootstrap_value)

lemma regress_elasticnet_report:
  "regress_elasticnet E output_dir table metadata category test_size step cv random_state n_jobs
     optimize_feature_selection parameter_tuning =
   report E
       \<lparr>soc_table = table, soc_metadata = metadata, soc_category = category,
        soc_estimator = ElasticNet,
        soc_output_dir = output_dir, soc_test_size = test_size, soc_step = step,
        soc_cv = cv, soc_random_state = random_state, soc_n_jobs = n_jobs,
        soc_optimize_feature_selection = optimize_feature_selection,
        soc_parameter_tuning = parameter_tuning,
        soc_param_dist = linear_params,
        soc_calc_feature_importance = True,
        soc_scoring = Some mean_squared_error, soc_classification = Some False\<rparr>
     output_dir optimize_feature_selection"
  by (simp add: regress_elasticnet_def report_def Let_def ensemble_params_without_bootstrap_value)

lemma classify_kneighbors_report:
  "classify_kneighbors E output_dir table metadata category test_size step cv random_state n_jobs
     parameter_tuning algorithm =
   report E
       \<lparr>soc_table = table, soc_metadata = metadata, soc_category = category,
        soc_estimator = KNeighborsClassifier algorithm,
        soc_output_dir = output_dir, soc_test_size = test_size, soc_step = step,
        soc_cv = cv, soc_random_state = random_state, soc_n_jobs = n_jobs,
        soc_optimize_feature_selection = False,
        soc_parameter_tuning = parameter_tuning,
        soc_param_dist = neighbors_params,
        soc_calc_feature_importance = False,
        soc_scoring = None, soc_classification = None\<rparr>
     output_dir False"
  by (simp add: classify_kneighbors_def report_def Let_def ensemble_params_without_bootstrap_value)

lemma regress_kneighbors_report:
  "regress_kneighbors E output_dir table metadata category test_size step cv random_state n_jobs
     parameter_tuning algorithm =
   report E
       \<lparr>soc_table = table, soc_metadata = metadata, soc_category = category,
        soc_estimator = KNeighborsRegressor algorithm,
        soc_output_dir = output_dir, soc_test_size = test_size, soc_step = step,
        soc_cv = cv, soc_random_state = random_state, soc_n_jobs = n_jobs,
        soc_optimize_feature_selection = False,
        soc_parameter_tuning = parameter_tuning,
        soc_param_dist = neighbors_params,
        soc_calc_feature_importance = False,
        soc_scoring = Some mean_squared_error, soc_classification = Some False\<rparr>
     output_dir False"
  by (simp add: regress_kneighbors_def report_def Let_def ensemble_params_without_bootstrap_value)

section \<open>Reading the calls off a trace\<close>

lemma soc_calls_append: "soc_calls (t @ u) = soc_calls t @ soc_calls u"
  by (induction t rule: soc_calls.induct) simp_all

lemma tune_calls_append: "tune_calls (t @ u) = tune_calls t @ tune_calls u"
  by (induction t rule: tune_calls.induct) simp_all

lemma load_data_calls_append: "load_data_calls (t @ u) = load_data_calls t @ load_data_calls u"
  by (induction t rule: load_data_calls.induct) simp_all

lemma visualize_calls_append: "visualize_calls (t @ u) = visualize_calls t @ visualize_calls u"
  by (induction t rule: visualize_calls.induct) simp_all

lemma warnings_of_append: "warnings_of (t @ u) = warnings_of t @ warnings_of u"
  by (induction t rule: warnings_of.induct) simp_all

lemma soc_calls_report: "soc_calls (snd (report E a dir ofs)) = [a]"
  by (simp add: report_trace split: sum.splits prod.splits)

lemma tune_calls_report: "tune_calls (snd (report E a dir ofs)) = []"
  by (simp add: report_trace split: sum.splits prod.splits)

lemma warnings_of_report: "warnings_of (snd (report E a dir ofs)) = []"
  by (simp add: report_trace split: sum.splits prod.splits)

lemma load_data_calls_report: "load_data_calls (snd (report E a dir ofs)) = []"
  by (simp add: report_trace split: sum.splits prod.splits)

lemma visualize_calls_report:
  "visualize_calls (snd (report E a dir ofs)) =
     (case env_split_optimize_classify E a of
        Inl n \<Rightarrow> []
      | Inr (est, m, acc, imp) \<Rightarrow> [(dir, est, m, acc, imp, ofs)])"
  by (simp add: report_trace split: sum.splits prod.splits)

lemma soc_calls_pretune: "soc_calls (snd (pretune E tb md cat base pd nj folds rs pt)) = []"
  by (simp add: pretune_trace split: sum.splits prod.splits)

lemma visualize_calls_pretune:
  "visualize_calls (snd (pretune E tb md cat base pd nj folds rs pt)) = []"
  by (simp add: pretune_trace split: sum.splits prod.splits)

lemma warnings_of_pretune:
  "warnings_of (snd (pretune E tb md cat base pd nj folds rs pt)) = []"
  by (simp add: pretune_trace split: sum.splits prod.splits)

lemma tune_calls_pretune:
  "tune_calls (snd (pretune E tb md cat base pd nj folds rs pt)) =
     (if pt
      then (case env_load_data E tb md True of
              Inl n \<Rightarrow> []
            | Inr (X, tg) \<Rightarrow>
                (case env_getitem E tg cat of
                   Inl n \<Rightarrow> []
                 | Inr y \<Rightarrow> [(X, y, base, pd, nj, folds, rs)]))
      else [])"
  by (simp add: pretune_trace split: sum.splits prod.splits)

lemma load_data_calls_pretune:
  "load_data_calls (snd (pretune E tb md cat base pd nj folds rs pt)) =
     (if pt then [(tb, md, True)] else [])"
  by (simp add: pretune_trace split: sum.splits prod.splits)

lemmas calls_append =
  soc_calls_append tune_calls_append load_data_calls_append visualize_calls_append
  warnings_of_append

lemmas calls_report =
  soc_calls_report tune_calls_report load_data_calls_report visualize_calls_report
  warnings_of_report

lemmas calls_pretune =
  soc_calls_pretune tune_calls_pretune load_data_calls_pretune visualize_calls_pretune
  warnings_of_pretune

lemma sample_env_simps [simp]:
  "env_load_data sample_env tb md tr = Inr (Obj 1, Obj 2)"
  "env_getitem sample_env obj key = Inr (Obj 3)"
  "env_tune_parameters sample_env X y base pd nj folds rs = Inr (EstimatorObject 4)"
  "env_split_optimize_classify sample_env a = Inr (EstimatorObject 5, Obj 6, Obj 7, Obj 8)"
  "env_visualize sample_env dir est m acc imp ofs = Inr PNone"
  "env_predict sample_env est tb = Inr (Obj 9)"
  by (simp_all add: sample_env_def)

lemma boosting_params_filter:
  "filter (\<lambda>kv. fst kv \<noteq> ''bootstrap'') ensemble_params = boosting_params"
  by (simp add: ensemble_params_def boosting_params_def)

lemma svm_set_result: "fst (svm_set k ofs) = Inr (k = ''linear'', k = ''linear'' \<and> ofs)"
  by (simp add: svm_set_def warn_feature_selection_def warnings_warn_def bind_def return_def)

lemma svm_set_trace:
  "snd (svm_set k ofs) =
     (if k = ''linear'' then []
      else [Warn ''This estimator does not support recursive feature extraction with the parameter settings requested. See documentation or try a different estimator model.''
              UserWarning])"
  by (simp add: svm_set_def warn_feature_selection_def warnings_warn_def bind_def return_def)

lemmas entry_point_reports =
  classify_random_forest_report classify_extra_trees_report
  classify_adaboost_report classify_gradient_boosting_report regress_random_forest_report
  regress_extra_trees_report regress_adaboost_report regress_gradient_boosting_report
  classify_linearSVC_report classify_SVC_report regress_SVR_report regress_ridge_report
  regress_lasso_report regress_elasticnet_report classify_kneighbors_report
  regress_kneighbors_report

section \<open>Exceptions pass through\<close>

lemma propagates_return: "propagates E (return x)"
  by (simp add: propagates_def return_def)

lemma propagates_bind:
  assumes "propagates E m" and "\<And>x. fst m = Inr x \<Longrightarrow> propagates E (f x)"
  shows "propagates E (bind m f)"
proof (cases "fst m")
  case (Inl e)
  with assms(1) show ?thesis
    by (simp add: propagates_def fst_bind snd_bind)
next
  case (Inr x)
  with assms have m: "list_all (\<lambda>ev. raised_by E ev = None) (snd m)" and fx: "propagates E (f x)"
    by (simp_all add: propagates_def)
  show ?thesis
  proof (cases "fst (f x)")
    case (Inl e)
    with fx have "snd (f x) \<noteq> []" by (simp add: propagates_def)
    with Inl Inr m fx show ?thesis
      by (simp add: propagates_def fst_bind snd_bind butlast_append)
  next
    case (Inr y)
    with \<open>fst m = Inr x\<close> m fx show ?thesis
      by (simp add: propagates_def fst_bind snd_bind)
  qed
qed

lemma propagates_calls:
  "propagates E (load_data E tb md tr)"
  "propagates E (getitem E obj key)"
  "propagates E (tune_parameters E X y base pd nj folds rs)"
  "propagates E (split_optimize_classify E a)"
  "propagates E (visualize E dir est m acc imp ofs)"
  "propagates E (predict E est tb)"
  "propagates E (warnings_warn message c)"
  by (simp_all add: propagates_def load_data_def getitem_def tune_parameters_def
      split_optimize_classify_def visualize_def predict_def warnings_warn_def call_def
      split: sum.splits)

lemma propagates_report: "propagates E (report E a dir ofs)"
  unfolding report_def
  by (intro propagates_bind propagates_calls) (simp add: split_def propagates_bind propagates_calls propagates_return)

lemma propagates_pretune: "propagates E (pretune E tb md cat base pd nj folds rs pt)"
  unfolding pretune_def
  by (simp add: split_def propagates_bind propagates_calls propagates_return)

lemma propagates_warn_feature_selection: "propagates E warn_feature_selection"
  by (simp add: warn_feature_selection_def propagates_calls)

lemma propagates_svm_set: "propagates E (svm_set k ofs)"
  by (simp add: svm_set_def propagates_bind propagates_return propagates_warn_feature_selection)

lemma propagates_invoke: "propagates E (invoke E ep x)"
  by (cases ep)
    (simp_all add: classify_random_forest_report classify_extra_trees_report
      classify_adaboost_report classify_gradient_boosting_report regress_random_forest_report
      regress_extra_trees_report regress_adaboost_report regress_gradient_boosting_report
      classify_linearSVC_report classify_SVC_report regress_SVR_report regress_ridge_report
      regress_lasso_report regress_elasticnet_report classify_kneighbors_report
      regress_kneighbors_report split_def
      propagates_bind propagates_report propagates_pretune propagates_svm_set)

lemma warnings_of_invoke:
  "list_all (\<lambda>w. w = (''This estimator does not support recursive feature extraction with the parameter settings requested. See documentation or try a different estimator model.'', UserWarning))
     (warnings_of (snd (invoke E ep x)))"
  by (cases ep)
    (simp_all add: classify_random_forest_report classify_extra_trees_report
      classify_adaboost_report classify_gradient_boosting_report regress_random_forest_report
      regress_extra_trees_report regress_adaboost_report regress_gradient_boosting_report
      classify_linearSVC_report classify_SVC_report regress_SVR_report regress_ridge_report
      regress_lasso_report regress_elasticnet_report classify_kneighbors_report
      regress_kneighbors_report split_def snd_bind svm_set_result svm_set_trace
      calls_append calls_report calls_pretune split: sum.splits)

section \<open>What a returning entry point has done\<close>

lemma returns_report:
  assumes "fst (report E a dir ofs) = Inr v"
  shows "v = PNone \<and>
         map fst (visualize_calls (snd (report E a dir ofs))) = [dir] \<and>
         visualize_calls (butlast (snd (report E a dir ofs))) = []"
  using assms
  by (auto simp add: report_result report_trace split: sum.splits prod.splits)

lemma returns_bind_report:
  assumes "fst (bind m (\<lambda>b. report E (A b) dir (F b))) = Inr v"
    and "visualize_calls (snd m) = []"
  shows "v = PNone \<and>
         map fst (visualize_calls (snd (bind m (\<lambda>b. report E (A b) dir (F b))))) = [dir] \<and>
         visualize_calls (butlast (snd (bind m (\<lambda>b. report E (A b) dir (F b))))) = []"
proof -
  from assms(1) obtain b where b: "fst m = Inr b" and r: "fst (report E (A b) dir (F b)) = Inr v"
    by (auto simp add: fst_bind split: sum.splits)
  have ne: "snd (report E (A b) dir (F b)) \<noteq> []"
    by (simp add: report_trace)
  from b have t: "snd (bind m (\<lambda>b. report E (A b) dir (F b))) = snd m @ snd (report E (A b) dir (F b))"
    by (simp add: snd_bind)
  show ?thesis
    using returns_report [OF r] assms(2) ne
    by (simp add: t butlast_append visualize_calls_append)
qed

lemma returns_pretune_report:
  assumes "fst (bind (pretune E tb md cat base pd nj folds rs pt) (\<lambda>b. report E (A b) dir ofs)) = Inr v"
  shows "v = PNone \<and>
         map fst (visualize_calls (snd (bind (pretune E tb md cat base pd nj folds rs pt)
            (\<lambda>b. report E (A b) dir ofs)))) = [dir] \<and>
         visualize_calls (butlast (snd (bind (pretune E tb md cat base pd nj folds rs pt)
            (\<lambda>b. report E (A b) dir ofs)))) = []"
  using assms by (rule returns_bind_report) (rule visualize_calls_pretune)

lemma returns_svm_report:
  assumes "fst (bind (svm_set k ofs) (\<lambda>b. report E (A b) dir (F b))) = Inr v"
  shows "v = PNone \<and>
         map fst (visualize_calls (snd (bind (svm_set k ofs)
            (\<lambda>b. report E (A b) dir (F b))))) = [dir] \<and>
         visualize_calls (butlast (snd (bind (svm_set k ofs)
            (\<lambda>b. report E (A b) dir (F b))))) = []"
  using assms by (rule returns_bind_report) (simp add: svm_set_trace)

section \<open>Support vector machines with another kernel\<close>

text \<open>
  C1. For every call of \<^verbatim>\<open>classify_SVC\<close> or \<^verbatim>\<open>regress_SVR\<close> with a kernel other than
  \<^verbatim>\<open>'linear'\<close>, whatever \<^verbatim>\<open>optimize_feature_selection\<close> the caller supplied: the first
  thing the function does is to emit one \<^verbatim>\<open>UserWarning\<close> saying that the estimator does
  not support recursive feature extraction with the parameter settings requested, and
  \<^verbatim>\<open>split_optimize_classify\<close> is then called once, with
  \<^verbatim>\<open>optimize_feature_selection=False\<close> and \<^verbatim>\<open>calc_feature_importance=False\<close>.
\<close>

theorem nonlinear_kernel_switches_feature_selection_off:
  assumes "k \<noteq> ''linear''"
  shows
    "hd (snd (classify_SVC E od tb md cat ts st folds rs nj pt ofs k)) =
       Warn 
       ''This estimator does not support recursive feature extraction with the parameter settings requested. See documentation or try a different estimator model.'' UserWarning \<and>
     warnings_of (snd (classify_SVC E od tb md cat ts st folds rs nj pt ofs k)) =
       [(
       ''This estimator does not support recursive feature extraction with the parameter settings requested. See documentation or try a different estimator model.'', UserWarning)] \<and>
     map (\<lambda>a. (soc_optimize_feature_selection a, soc_calc_feature_importance a))
       (soc_calls (snd (classify_SVC E od tb md cat ts st folds rs nj pt ofs k))) =
       [(False, False)] \<and>
     hd (snd (regress_SVR E od tb md cat ts st folds rs nj pt ofs k)) =
       Warn 
       ''This estimator does not support recursive feature extraction with the parameter settings requested. See documentation or try a different estimator model.'' UserWarning \<and>
     warnings_of (snd (regress_SVR E od tb md cat ts st folds rs nj pt ofs k)) =
       [(
       ''This estimator does not support recursive feature extraction with the parameter settings requested. See documentation or try a different estimator model.'', UserWarning)] \<and>
     map (\<lambda>a. (soc_optimize_feature_selection a, soc_calc_feature_importance a))
       (soc_calls (snd (regress_SVR E od tb md cat ts st folds rs nj pt ofs k))) =
       [(False, False)]"
  using assms
  by (simp add: classify_SVC_report regress_SVR_report svm_set_nonlinear snd_bind report_trace
      split: sum.splits prod.splits)

theorem nonlinear_kernel_switches_feature_selection_off_witness:
  "hd (snd (classify_SVC sample_env ''out'' (Obj 10) (Obj 11) ''site'' 0.2 0.05 5 None 1
         False True ''rbf'')) =
     Warn 
       ''This estimator does not support recursive feature extraction with the parameter settings requested. See documentation or try a different estimator model.'' UserWarning \<and>
   warnings_of (snd (classify_SVC sample_env ''out'' (Obj 10) (Obj 11) ''site'' 0.2 0.05 5 None 1
         False True ''rbf'')) =
     [(
       ''This estimator does not support recursive feature extraction with the parameter settings requested. See documentation or try a different estimator model.'', UserWarning)] \<and>
   map (\<lambda>a. (soc_optimize_feature_selection a, soc_calc_feature_importance a))
     (soc_calls (snd (classify_SVC sample_env ''out'' (Obj 10) (Obj 11) ''site'' 0.2 0.05 5 None 1
         False True ''rbf''))) =
     [(False, False)] \<and>
   warnings_of (snd (regress_SVR sample_env ''out'' (Obj 10) (Obj 11) ''site'' 0.2 0.05 5 None 1
         False True ''rbf'')) =
     [(
       ''This estimator does not support recursive feature extraction with the parameter settings requested. See documentation or try a different estimator model.'', UserWarning)] \<and>
   map (\<lambda>a. (soc_optimize_feature_selection a, soc_calc_feature_importance a))
     (soc_calls (snd (regress_SVR sample_env ''out'' (Obj 10) (Obj 11) ''site'' 0.2 0.05 5 None 1
         False True ''rbf''))) =
     [(False, False)]"
  using nonlinear_kernel_switches_feature_selection_off
    [where k = "''rbf''" and E = sample_env and od = "''out''" and tb = "Obj 10" and md = "Obj 11"
       and cat = "''site''" and ts = "0.2" and st = "0.05" and folds = 5 and rs = None and nj = 1
       and pt = False and ofs = True]
  by simp

section \<open>Support vector machines with the linear kernel\<close>

text \<open>
  C4. For every call of \<^verbatim>\<open>classify_SVC\<close> or \<^verbatim>\<open>regress_SVR\<close> with the kernel
  \<^verbatim>\<open>'linear'\<close>, no warning is emitted and \<^verbatim>\<open>split_optimize_classify\<close> is called once, with
  \<^verbatim>\<open>calc_feature_importance=True\<close> and with the caller's own value of
  \<^verbatim>\<open>optimize_feature_selection\<close>.
\<close>

theorem linear_kernel_keeps_feature_selection:
  "warnings_of (snd (classify_SVC E od tb md cat ts st folds rs nj pt ofs ''linear'')) = [] \<and>
   map (\<lambda>a. (soc_optimize_feature_selection a, soc_calc_feature_importance a))
     (soc_calls (snd (classify_SVC E od tb md cat ts st folds rs nj pt ofs ''linear''))) =
     [(ofs, True)] \<and>
   warnings_of (snd (regress_SVR E od tb md cat ts st folds rs nj pt ofs ''linear'')) = [] \<and>
   map (\<lambda>a. (soc_optimize_feature_selection a, soc_calc_feature_importance a))
     (soc_calls (snd (regress_SVR E od tb md cat ts st folds rs nj pt ofs ''linear''))) =
     [(ofs, True)]"
  by (simp add: classify_SVC_report regress_SVR_report svm_set_linear calls_report)

section \<open>Prediction on new data\<close>

text \<open>
  C8. For every table and estimator, \<^verbatim>\<open>classify_new_data\<close> does one thing, the call
  \<^verbatim>\<open>estimator.predict(table)\<close> on the table as it was given, and its result is the result of
  that call: the value returned, or the exception raised.
\<close>

theorem classify_new_data_is_predict:
  "snd (classify_new_data E table estimator) = [Predict estimator table] \<and>
   fst (classify_new_data E table estimator) =
     (case env_predict E estimator table of
        Inl n \<Rightarrow> Inl (Foreign n)
      | Inr predictions \<Rightarrow> Inr predictions)"
  by (simp add: classify_new_data_def predict_def snd_bind fst_bind fst_call snd_call return_def
      split: sum.splits)

section \<open>Nearest neighbours: no feature selection\<close>

text \<open>
  C10. For every input, \<^verbatim>\<open>classify_kneighbors\<close> and \<^verbatim>\<open>regress_kneighbors\<close> call
  \<^verbatim>\<open>split_optimize_classify\<close> once, with \<^verbatim>\<open>optimize_feature_selection=False\<close> and
  \<^verbatim>\<open>calc_feature_importance=False\<close>; every call of \<^verbatim>\<open>visualize\<close> they make has
  \<^verbatim>\<open>False\<close> as its last argument, and there is one such call whenever
  \<^verbatim>\<open>split_optimize_classify\<close> returned. The two functions have no parameter that could
  change this.
\<close>

theorem kneighbors_never_select_features:
  "map (\<lambda>a. (soc_optimize_feature_selection a, soc_calc_feature_importance a))
     (soc_calls (snd (classify_kneighbors E od tb md cat ts st folds rs nj pt alg))) =
     [(False, False)] \<and>
   list_all (\<lambda>(dir, est, m, acc, imp, ofs). \<not> ofs)
     (visualize_calls (snd (classify_kneighbors E od tb md cat ts st folds rs nj pt alg))) \<and>
   (soc_calls (snd (classify_kneighbors E od tb md cat ts st folds rs nj pt alg)) = [a] \<and>
    env_split_optimize_classify E a = Inr r \<longrightarrow>
      map (\<lambda>(dir, est, m, acc, imp, ofs). ofs)
        (visualize_calls (snd (classify_kneighbors E od tb md cat ts st folds rs nj pt alg))) =
        [False]) \<and>
   map (\<lambda>a. (soc_optimize_feature_selection a, soc_calc_feature_importance a))
     (soc_calls (snd (regress_kneighbors E od tb md cat ts st folds rs nj pt alg))) =
     [(False, False)] \<and>
   list_all (\<lambda>(dir, est, m, acc, imp, ofs). \<not> ofs)
     (visualize_calls (snd (regress_kneighbors E od tb md cat ts st folds rs nj pt alg))) \<and>
   (soc_calls (snd (regress_kneighbors E od tb md cat ts st folds rs nj pt alg)) = [a'] \<and>
    env_split_optimize_classify E a' = Inr r' \<longrightarrow>
      map (\<lambda>(dir, est, m, acc, imp, ofs). ofs)
        (visualize_calls (snd (regress_kneighbors E od tb md cat ts st folds rs nj pt alg))) =
        [False])"
  by (auto simp add: classify_kneighbors_report regress_kneighbors_report calls_report
      split: sum.splits prod.splits)

theorem kneighbors_never_select_features_witness:
  "map (\<lambda>(dir, est, m, acc, imp, ofs). ofs)
     (visualize_calls (snd (classify_kneighbors sample_env ''out'' (Obj 10) (Obj 11) ''site'' 0.2
        0.05 5 None 1 True ''auto''))) = [False] \<and>
   map (\<lambda>(dir, est, m, acc, imp, ofs). ofs)
     (visualize_calls (snd (regress_kneighbors sample_env ''out'' (Obj 10) (Obj 11) ''site'' 0.2
        0.05 5 None 1 True ''auto''))) = [False]"
proof -
  let ?c = "snd (classify_kneighbors sample_env ''out'' (Obj 10) (Obj 11) ''site'' 0.2
        0.05 5 None 1 True ''auto'')"
  let ?r = "snd (regress_kneighbors sample_env ''out'' (Obj 10) (Obj 11) ''site'' 0.2
        0.05 5 None 1 True ''auto'')"
  obtain a where a: "soc_calls ?c = [a]"
    by (simp add: classify_kneighbors_report calls_report)
  obtain a' where a': "soc_calls ?r = [a']"
    by (simp add: regress_kneighbors_report calls_report)
  show ?thesis
    using a a' kneighbors_never_select_features
      [where E = sample_env and od = "''out''" and tb = "Obj 10" and md = "Obj 11"
         and cat = "''site''" and ts = "0.2" and st = "0.05" and folds = 5 and rs = None
         and nj = 1 and pt = True and alg = "''auto''" and a = a and a' = a'
         and r = "(EstimatorObject 5, Obj 6, Obj 7, Obj 8)"
         and r' = "(EstimatorObject 5, Obj 6, Obj 7, Obj 8)"]
    by simp
qed

section \<open>The boosting estimators\<close>

text \<open>
  C9. The search space that \<^verbatim>\<open>classify_adaboost\<close>, \<^verbatim>\<open>regress_adaboost\<close>,
  \<^verbatim>\<open>classify_gradient_boosting\<close> and \<^verbatim>\<open>regress_gradient_boosting\<close> pass onward, to
  \<^verbatim>\<open>split_optimize_classify\<close> and (AdaBoost) to \<^verbatim>\<open>tune_parameters\<close>, is
  \<open>ensemble_params\<close> without its \<^verbatim>\<open>"bootstrap"\<close> entry: the four keys \<^verbatim>\<open>max_depth\<close>,
  \<^verbatim>\<open>max_features\<close>, \<^verbatim>\<open>min_samples_split\<close> and \<^verbatim>\<open>min_weight_fraction_leaf\<close>, each with
  its value in \<open>ensemble_params\<close>. The gradient boosting functions always call
  \<^verbatim>\<open>split_optimize_classify\<close> once; the AdaBoost functions fail to reach that call only
  when pre-tuning was requested and a collaborator raised in it.
\<close>

theorem boosting_search_space_drops_bootstrap:
  "map soc_param_dist
     (soc_calls (snd (classify_gradient_boosting E od tb md cat ts st folds rs nj ne ofs pt))) =
     [filter (\<lambda>kv. fst kv \<noteq> ''bootstrap'') ensemble_params] \<and>
   map soc_param_dist
     (soc_calls (snd (regress_gradient_boosting E od tb md cat ts st folds rs nj ne ofs pt))) =
     [filter (\<lambda>kv. fst kv \<noteq> ''bootstrap'') ensemble_params] \<and>
   (let t = snd (classify_adaboost E od tb md cat ts st folds rs nj ne ofs pt) in
      list_all (\<lambda>a. soc_param_dist a = filter (\<lambda>kv. fst kv \<noteq> ''bootstrap'') ensemble_params)
        (soc_calls t) \<and>
      list_all (\<lambda>(X, y, base, pd, r). pd = filter (\<lambda>kv. fst kv \<noteq> ''bootstrap'') ensemble_params)
        (tune_calls t) \<and>
      (soc_calls t = [] \<longrightarrow> pt \<and> raised_by E (last t) \<noteq> None)) \<and>
   (let t = snd (regress_adaboost E od tb md cat ts st folds rs nj ne ofs pt) in
      list_all (\<lambda>a. soc_param_dist a = filter (\<lambda>kv. fst kv \<noteq> ''bootstrap'') ensemble_params)
        (soc_calls t) \<and>
      list_all (\<lambda>(X, y, base, pd, r). pd = filter (\<lambda>kv. fst kv \<noteq> ''bootstrap'') ensemble_params)
        (tune_calls t) \<and>
      (soc_calls t = [] \<longrightarrow> pt \<and> raised_by E (last t) \<noteq> None)) \<and>
   map fst (filter (\<lambda>kv. fst kv \<noteq> ''bootstrap'') ensemble_params) =
     [''max_depth'', ''max_features'', ''min_samples_split'', ''min_weight_fraction_leaf''] \<and>
   map_of (filter (\<lambda>kv. fst kv \<noteq> ''bootstrap'') ensemble_params) k =
     (if k = ''bootstrap'' then None else map_of ensemble_params k)"
proof -
  have gb: "map soc_param_dist
     (soc_calls (snd (classify_gradient_boosting E od tb md cat ts st folds rs nj ne ofs pt))) =
     [boosting_params]"
    "map soc_param_dist
     (soc_calls (snd (regress_gradient_boosting E od tb md cat ts st folds rs nj ne ofs pt))) =
     [boosting_params]"
    by (simp_all add: classify_gradient_boosting_report regress_gradient_boosting_report
        calls_report)
  have ada: "list_all (\<lambda>a. soc_param_dist a = boosting_params)
        (soc_calls (snd (classify_adaboost E od tb md cat ts st folds rs nj ne ofs pt)))"
    "list_all (\<lambda>(X, y, base, pd, r). pd = boosting_params)
        (tune_calls (snd (classify_adaboost E od tb md cat ts st folds rs nj ne ofs pt)))"
    "list_all (\<lambda>a. soc_param_dist a = boosting_params)
        (soc_calls (snd (regress_adaboost E od tb md cat ts st folds rs nj ne ofs pt)))"
    "list_all (\<lambda>(X, y, base, pd, r). pd = boosting_params)
        (tune_calls (snd (regress_adaboost E od tb md cat ts st folds rs nj ne ofs pt)))"
    by (simp_all add: classify_adaboost_report regress_adaboost_report snd_bind
        calls_append calls_report calls_pretune split: sum.splits prod.splits)
  have reach:
    "soc_calls (snd (classify_adaboost E od tb md cat ts st folds rs nj ne ofs pt)) = [] \<longrightarrow>
       pt \<and> raised_by E (last (snd (classify_adaboost E od tb md cat ts st folds rs nj ne ofs pt))) \<noteq> None"
    "soc_calls (snd (regress_adaboost E od tb md cat ts st folds rs nj ne ofs pt)) = [] \<longrightarrow>
       pt \<and> raised_by E (last (snd (regress_adaboost E od tb md cat ts st folds rs nj ne ofs pt))) \<noteq> None"
    by (simp_all add: classify_adaboost_report regress_adaboost_report snd_bind pretune_result
        pretune_trace calls_append calls_report calls_pretune
        split: sum.splits prod.splits if_splits)
  have ks: "map fst boosting_params =
     [''max_depth'', ''max_features'', ''min_samples_split'', ''min_weight_fraction_leaf'']"
    by (simp add: boosting_params_def)
  have vs: "map_of boosting_params k = (if k = ''bootstrap'' then None else map_of ensemble_params k)"
    by (simp add: boosting_params_def ensemble_params_def)
  show ?thesis
    unfolding Let_def boosting_params_filter
    using gb ada reach ks vs by blast
qed

theorem boosting_search_space_drops_bootstrap_witness:
  "(let t = snd (classify_adaboost sample_env ''out'' (Obj 10) (Obj 11) ''site'' 0.2 0.05 5 None 1
               100 False True) in
      list_all (\<lambda>a. soc_param_dist a = filter (\<lambda>kv. fst kv \<noteq> ''bootstrap'') ensemble_params)
        (soc_calls t) \<and>
      list_all (\<lambda>(X, y, base, pd, r). pd = filter (\<lambda>kv. fst kv \<noteq> ''bootstrap'') ensemble_params)
        (tune_calls t) \<and>
      length (soc_calls t) = 1 \<and> length (tune_calls t) = 1)"
  using boosting_search_space_drops_bootstrap
      [where E = sample_env and od = "''out''" and tb = "Obj 10" and md = "Obj 11"
         and cat = "''site''" and ts = "0.2" and st = "0.05" and folds = 5 and rs = None
         and nj = 1 and ne = 100 and ofs = False and pt = True]
  by (simp add: Let_def classify_adaboost_report snd_bind pretune_result pretune_trace
      calls_append calls_report calls_pretune)

text \<open>
  C2. \<^verbatim>\<open>classify_adaboost\<close> and \<^verbatim>\<open>regress_adaboost\<close> pre-tune the base estimator exactly
  when \<^verbatim>\<open>parameter_tuning\<close> is true. A call of \<^verbatim>\<open>tune_parameters\<close> occurs only if
  \<^verbatim>\<open>parameter_tuning\<close> is true. If it is true, the function starts with \<^verbatim>\<open>load_data\<close>;
  once \<^verbatim>\<open>load_data\<close> and the subscript have returned, \<^verbatim>\<open>tune_parameters\<close> is called
  once, on the fresh decision tree, and once it has returned, the AdaBoost estimator is
  built on its result. If it is false, \<^verbatim>\<open>load_data\<close> is not called and the AdaBoost
  estimator is built on the fresh decision tree. In every case, every call of
  \<^verbatim>\<open>split_optimize_classify\<close> has \<^verbatim>\<open>parameter_tuning=False\<close>.
\<close>

theorem adaboost_pretunes_iff_parameter_tuning:
  "(let t = snd (classify_adaboost E od tb md cat ts st folds rs nj ne ofs pt) in
      (tune_calls t \<noteq> [] \<longrightarrow> pt) \<and>
      (pt \<longrightarrow> hd t = LoadData tb md True) \<and>
      (pt \<and> env_load_data E tb md True = Inr (X, tg) \<and> env_getitem E tg cat = Inr y \<longrightarrow>
         map (\<lambda>(X, y, base, r). base) (tune_calls t) = [DecisionTreeClassifier]) \<and>
      (pt \<and> env_load_data E tb md True = Inr (X, tg) \<and> env_getitem E tg cat = Inr y \<and>
       env_tune_parameters E X y DecisionTreeClassifier boosting_params nj folds rs = Inr b \<longrightarrow>
         map soc_estimator (soc_calls t) = [AdaBoostClassifier b ne]) \<and>
      (\<not> pt \<longrightarrow>
         load_data_calls t = [] \<and>
         map soc_estimator (soc_calls t) = [AdaBoostClassifier DecisionTreeClassifier ne]) \<and>
      list_all (\<lambda>a. \<not> soc_parameter_tuning a) (soc_calls t)) \<and>
   (let t = snd (regress_adaboost E od tb md cat ts st folds rs nj ne ofs pt) in
      (tune_calls t \<noteq> [] \<longrightarrow> pt) \<and>
      (pt \<longrightarrow> hd t = LoadData tb md True) \<and>
      (pt \<and> env_load_data E tb md True = Inr (X, tg) \<and> env_getitem E tg cat = Inr y \<longrightarrow>
         map (\<lambda>(X, y, base, r). base) (tune_calls t) = [DecisionTreeRegressor]) \<and>
      (pt \<and> env_load_data E tb md True = Inr (X, tg) \<and> env_getitem E tg cat = Inr y \<and>
       env_tune_parameters E X y DecisionTreeRegressor boosting_params nj folds rs = Inr b' \<longrightarrow>
         map soc_estimator (soc_calls t) = [AdaBoostRegressor b' ne]) \<and>
      (\<not> pt \<longrightarrow>
         load_data_calls t = [] \<and>
         map soc_estimator (soc_calls t) = [AdaBoostRegressor DecisionTreeRegressor ne]) \<and>
      list_all (\<lambda>a. \<not> soc_parameter_tuning a) (soc_calls t))"
  by (simp add: Let_def classify_adaboost_report regress_adaboost_report snd_bind
      pretune_result pretune_trace calls_append calls_report calls_pretune
      split: sum.splits prod.splits)

theorem adaboost_pretunes_iff_parameter_tuning_witness:
  "(let t = snd (classify_adaboost sample_env ''out'' (Obj 10) (Obj 11) ''site'' 0.2 0.05 5 None 1
               100 False True) in
      hd t = LoadData (Obj 10) (Obj 11) True \<and>
      map (\<lambda>(X, y, base, r). base) (tune_calls t) = [DecisionTreeClassifier] \<and>
      map soc_estimator (soc_calls t) = [AdaBoostClassifier (EstimatorObject 4) 100] \<and>
      list_all (\<lambda>a. \<not> soc_parameter_tuning a) (soc_calls t)) \<and>
   (let t = snd (classify_adaboost sample_env ''out'' (Obj 10) (Obj 11) ''site'' 0.2 0.05 5 None 1
               100 False False) in
      tune_calls t = [] \<and> load_data_calls t = [] \<and>
      map soc_estimator (soc_calls t) = [AdaBoostClassifier DecisionTreeClassifier 100] \<and>
      list_all (\<lambda>a. \<not> soc_parameter_tuning a) (soc_calls t)) \<and>
   (let t = snd (regress_adaboost sample_env ''out'' (Obj 10) (Obj 11) ''site'' 0.2 0.05 5 None 1
               100 False True) in
      hd t = LoadData (Obj 10) (Obj 11) True \<and>
      map (\<lambda>(X, y, base, r). base) (tune_calls t) = [DecisionTreeRegressor] \<and>
      map soc_estimator (soc_calls t) = [AdaBoostRegressor (EstimatorObject 4) 100] \<and>
      list_all (\<lambda>a. \<not> soc_parameter_tuning a) (soc_calls t)) \<and>
   (let t = snd (regress_adaboost sample_env ''out'' (Obj 10) (Obj 11) ''site'' 0.2 0.05 5 None 1
               100 False False) in
      tune_calls t = [] \<and> load_data_calls t = [] \<and>
      map soc_estimator (soc_calls t) = [AdaBoostRegressor DecisionTreeRegressor 100] \<and>
      list_all (\<lambda>a. \<not> soc_parameter_tuning a) (soc_calls t))"
  using adaboost_pretunes_iff_parameter_tuning
      [where E = sample_env and od = "''out''" and tb = "Obj 10" and md = "Obj 11"
         and cat = "''site''" and ts = "0.2" and st = "0.05" and folds = 5 and rs = None
         and nj = 1 and ne = 100 and ofs = False and pt = True and X = "Obj 1" and tg = "Obj 2"
         and y = "Obj 3" and b = "EstimatorObject 4" and b' = "EstimatorObject 4"]
    adaboost_pretunes_iff_parameter_tuning
      [where E = sample_env and od = "''out''" and tb = "Obj 10" and md = "Obj 11"
         and cat = "''site''" and ts = "0.2" and st = "0.05" and folds = 5 and rs = None
         and nj = 1 and ne = 100 and ofs = False and pt = False]
  by (simp add: Let_def)

text \<open>
  C7, as the code has it. For every call of \<^verbatim>\<open>classify_adaboost\<close> or
  \<^verbatim>\<open>regress_adaboost\<close> with \<^verbatim>\<open>parameter_tuning\<close> true, \<^verbatim>\<open>load_data\<close> is called once, as
  \<^verbatim>\<open>load_data(table, metadata, transpose=True)\<close>; when it returns \<open>(features, targets)\<close> and
  the subscript \<^verbatim>\<open>targets[category]\<close> returns \<open>y\<close>, \<^verbatim>\<open>tune_parameters\<close> is called once, with
  \<open>features\<close> as its first argument, \<open>y\<close> (the category column, not \<open>targets\<close>) as its
  second, the fresh decision tree as its third, and the function's \<^verbatim>\<open>param_dist\<close>,
  \<^verbatim>\<open>n_jobs\<close>, \<^verbatim>\<open>cv\<close> and \<^verbatim>\<open>random_state\<close>.
\<close>

theorem adaboost_tunes_on_category_column:
  assumes "env_load_data E tb md True = Inr (X, tg)" and "env_getitem E tg cat = Inr y"
  shows
    "load_data_calls (snd (classify_adaboost E od tb md cat ts st folds rs nj ne ofs True)) =
       [(tb, md, True)] \<and>
     tune_calls (snd (classify_adaboost E od tb md cat ts st folds rs nj ne ofs True)) =
       [(X, y, DecisionTreeClassifier, boosting_params, nj, folds, rs)] \<and>
     load_data_calls (snd (regress_adaboost E od tb md cat ts st folds rs nj ne ofs True)) =
       [(tb, md, True)] \<and>
     tune_calls (snd (regress_adaboost E od tb md cat ts st folds rs nj ne ofs True)) =
       [(X, y, DecisionTreeRegressor, boosting_params, nj, folds, rs)]"
  using assms
  by (simp add: classify_adaboost_report regress_adaboost_report snd_bind
      pretune_result calls_append calls_report calls_pretune
      split: sum.splits prod.splits)

theorem adaboost_tunes_on_category_column_witness:
  "load_data_calls (snd (classify_adaboost sample_env ''out'' (Obj 10) (Obj 11) ''site'' 0.2 0.05
       5 None 1 100 False True)) = [(Obj 10, Obj 11, True)] \<and>
   tune_calls (snd (classify_adaboost sample_env ''out'' (Obj 10) (Obj 11) ''site'' 0.2 0.05
       5 None 1 100 False True)) =
     [(Obj 1, Obj 3, DecisionTreeClassifier, boosting_params, 1, 5, None)] \<and>
   load_data_calls (snd (regress_adaboost sample_env ''out'' (Obj 10) (Obj 11) ''site'' 0.2 0.05
       5 None 1 100 False True)) = [(Obj 10, Obj 11, True)] \<and>
   tune_calls (snd (regress_adaboost sample_env ''out'' (Obj 10) (Obj 11) ''site'' 0.2 0.05
       5 None 1 100 False True)) =
     [(Obj 1, Obj 3, DecisionTreeRegressor, boosting_params, 1, 5, None)]"
  using adaboost_tunes_on_category_column
      [where E = sample_env and od = "''out''" and tb = "Obj 10" and md = "Obj 11"
         and cat = "''site''" and ts = "0.2" and st = "0.05" and folds = 5 and rs = None
         and nj = 1 and ne = 100 and ofs = False and X = "Obj 1" and tg = "Obj 2"
         and y = "Obj 3"]
  by simp

text \<open>
  C7, as it is stated, asks for the \<open>targets\<close> value returned by \<^verbatim>\<open>load_data\<close> as the second
  argument. In the sample environment \<^verbatim>\<open>load_data\<close> returns \<open>(Obj 1, Obj 2)\<close> and the
  subscript returns \<open>Obj 3\<close>: the second argument of \<^verbatim>\<open>tune_parameters\<close> is \<open>Obj 3\<close>.
\<close>

theorem adaboost_second_argument_is_not_targets:
  "env_load_data sample_env (Obj 10) (Obj 11) True = Inr (Obj 1, Obj 2) \<and>
   map (\<lambda>(X, y, r). (X, y))
     (tune_calls (snd (classify_adaboost sample_env ''out'' (Obj 10) (Obj 11) ''site'' 0.2 0.05
        5 None 1 100 False True))) = [(Obj 1, Obj 3)] \<and>
   Obj 3 \<noteq> Obj 2"
  by (simp add: classify_adaboost_report snd_bind
      pretune_result calls_append calls_report calls_pretune)

section \<open>All entry points\<close>

text \<open>
  C3. Every call of \<^verbatim>\<open>split_optimize_classify\<close> made by a \<^verbatim>\<open>classify_*\<close> entry point gets
  an estimator of a classifier class and passes neither \<^verbatim>\<open>scoring\<close> nor
  \<^verbatim>\<open>classification\<close>; every such call made by a \<^verbatim>\<open>regress_*\<close> entry point gets an
  estimator of a regressor class and passes \<^verbatim>\<open>scoring=mean_squared_error\<close> and
  \<^verbatim>\<open>classification=False\<close>. An entry point makes this call at most once, and makes it
  unless it is an AdaBoost one whose pre-tuning was requested and raised.
\<close>

theorem entry_points_select_estimator_and_scoring:
  "(let t = snd (invoke E ep x) in
      (is_classify ep \<longrightarrow>
         list_all (\<lambda>a. is_classifier (soc_estimator a) \<and> soc_scoring a = None \<and>
                        soc_classification a = None) (soc_calls t)) \<and>
      (is_regress ep \<longrightarrow>
         list_all (\<lambda>a. is_regressor (soc_estimator a) \<and>
                        soc_scoring a = Some mean_squared_error \<and>
                        soc_classification a = Some False) (soc_calls t)) \<and>
      length (soc_calls t) \<le> 1 \<and>
      (soc_calls t = [] \<longrightarrow>
         (ep = Classify_adaboost \<or> ep = Regress_adaboost) \<and> arg_parameter_tuning x \<and>
         raised_by E (last t) \<noteq> None))"
  by (cases ep)
    (simp_all add: Let_def entry_point_reports split_def snd_bind svm_set_result svm_set_trace
      pretune_result pretune_trace calls_append calls_report calls_pretune
      split: sum.splits prod.splits if_splits)

theorem entry_points_select_estimator_and_scoring_witness:
  "list_all (\<lambda>a. is_classifier (soc_estimator a) \<and> soc_scoring a = None \<and>
                  soc_classification a = None)
     (soc_calls (snd (invoke sample_env Classify_SVC sample_args))) \<and>
   soc_calls (snd (invoke sample_env Classify_SVC sample_args)) \<noteq> [] \<and>
   list_all (\<lambda>a. is_regressor (soc_estimator a) \<and>
                  soc_scoring a = Some mean_squared_error \<and>
                  soc_classification a = Some False)
     (soc_calls (snd (invoke sample_env Regress_ridge sample_args))) \<and>
   soc_calls (snd (invoke sample_env Regress_ridge sample_args)) \<noteq> []"
  using entry_points_select_estimator_and_scoring
      [where E = sample_env and ep = Classify_SVC and x = sample_args]
    entry_points_select_estimator_and_scoring
      [where E = sample_env and ep = Regress_ridge and x = sample_args]
  by (simp add: Let_def)

text \<open>
  C5, as the code has it. Each of the sixteen entry points, when it returns, returns
  \<^verbatim>\<open>None\<close>, has called \<^verbatim>\<open>visualize\<close> exactly once, with the caller's \<^verbatim>\<open>output_dir\<close> as
  first argument, and that call was the last thing it did.
\<close>

theorem entry_points_return_none_after_report:
  assumes "fst (invoke E ep x) = Inr v"
  shows "v = PNone \<and>
         map fst (visualize_calls (snd (invoke E ep x))) = [arg_output_dir x] \<and>
         visualize_calls (butlast (snd (invoke E ep x))) = []"
proof (cases ep)
  case Classify_adaboost
  with assms show ?thesis
    by (simp add: classify_adaboost_report returns_pretune_report)
next
  case Regress_adaboost
  with assms show ?thesis
    by (simp add: regress_adaboost_report returns_pretune_report)
next
  case Classify_SVC
  with assms show ?thesis
    by (simp add: classify_SVC_report split_def returns_svm_report)
next
  case Regress_SVR
  with assms show ?thesis
    by (simp add: regress_SVR_report split_def returns_svm_report)
qed (use assms in \<open>simp_all add: entry_point_reports returns_report\<close>)

theorem entry_points_return_none_after_report_witness:
  "fst (invoke sample_env Classify_SVC sample_args) = Inr PNone \<and>
   map fst (visualize_calls (snd (invoke sample_env Classify_SVC sample_args))) = [''out''] \<and>
   visualize_calls (butlast (snd (invoke sample_env Classify_SVC sample_args))) = []"
proof -
  have r: "fst (invoke sample_env Classify_SVC sample_args) = Inr PNone"
    by (simp add: classify_SVC_report split_def fst_bind svm_set_result report_result)
  show ?thesis
    using r entry_points_return_none_after_report [OF r]
    by (simp add: sample_args_def)
qed

text \<open>
  C5, as it is stated, speaks of every function of the file. \<^verbatim>\<open>classify_new_data\<close> is one
  of them: in the sample environment it returns the predictions \<open>Obj 9\<close>, which is not
  \<^verbatim>\<open>None\<close>, and it does not call \<^verbatim>\<open>visualize\<close>.
\<close>

theorem classify_new_data_returns_predictions:
  "fst (classify_new_data sample_env (Obj 10) (EstimatorObject 5)) = Inr (Obj 9) \<and>
   fst (classify_new_data sample_env (Obj 10) (EstimatorObject 5)) \<noteq> Inr PNone \<and>
   visualize_calls (snd (classify_new_data sample_env (Obj 10) (EstimatorObject 5))) = []"
  by (simp add: classify_new_data_def predict_def snd_bind fst_bind fst_call snd_call return_def)

text \<open>
  C6. No function of the file raises or catches an exception. For every input, a run of
  any entry point, of \<^verbatim>\<open>classify_new_data\<close>, of \<^verbatim>\<open>svm_set\<close> or of
  \<^verbatim>\<open>warn_feature_selection\<close> either ends with a value, every collaborator it called having
  returned, or ends with the very exception that the collaborator it called last raised,
  every earlier call having returned. In particular the subscript on \<open>ensemble_params\<close>
  never raises \<^verbatim>\<open>KeyError\<close>. The warning is not fatal: \<^verbatim>\<open>warn_feature_selection\<close> returns
  \<^verbatim>\<open>None\<close>, and the only warning an entry point can emit is this \<^verbatim>\<open>UserWarning\<close>.
\<close>

theorem no_exception_raised_or_caught:
  "propagates E (invoke E ep x) \<and>
   propagates E (classify_new_data E table estimator) \<and>
   propagates E (svm_set k ofs) \<and>
   propagates E warn_feature_selection \<and>
   fst warn_feature_selection = Inr PNone \<and>
   list_all (\<lambda>w. w = (''This estimator does not support recursive feature extraction with the parameter settings requested. See documentation or try a different estimator model.'', UserWarning))
     (warnings_of (snd (invoke E ep x)))"
proof -
  have "propagates E (classify_new_data E table estimator)"
    by (simp add: classify_new_data_def propagates_bind propagates_calls propagates_return)
  moreover have "fst warn_feature_selection = Inr PNone"
    by (simp add: warn_feature_selection_def warnings_warn_def)
  ultimately show ?thesis
    using propagates_invoke propagates_svm_set propagates_warn_feature_selection
      warnings_of_invoke
    by blast
qed

end
